theory Spec2Isabelle
  imports Complex_Main
begin

unbundle bit_operations_syntax

section \<open>Python values, errors and calls to collaborators\<close>

text \<open>
  The module \<^verbatim>\<open>NanoVNASaver.py\<close> is embedded function by function. A Python exception is a
  value of type \<open>error\<close>; a function that can raise returns \<open>error + 'a\<close> with \<open>Inl\<close> for
  the exception. Everything a function does to a collaborator whose code is not in the module
  (printing, logging, the I2C bus, the data lock, Qt widgets, charts, markers) is recorded, in
  program order, as a list of \<open>event\<close>s returned next to the result, so that what happened
  before an exception stays visible.
\<close>

datatype error = TypeError | ValueError | IndexError | OSError

text \<open>
  A sample of a sweep, as far as the module reads it: the attributes \<^verbatim>\<open>freq\<close>, \<^verbatim>\<open>vswr\<close> and
  \<^verbatim>\<open>gain\<close> of a \<^verbatim>\<open>Datapoint\<close>. The two floats are real numbers here; a NaN is outside the
  model.
\<close>

record Datapoint =
  freq :: int
  vswr :: real
  gain :: real

text \<open>
  What the module stores in \<^verbatim>\<open>s11\<close> and \<^verbatim>\<open>s21\<close> and passes on: \<^verbatim>\<open>None\<close> or a list object. No
  statement of the module changes a list in place, so a list object is its identity together
  with its elements; \<^verbatim>\<open>x[:]\<close> makes a list with the same elements and a new identity.
\<close>

datatype pyval = PyNone | PyList nat "Datapoint list"

datatype marker_id = LiveMarker nat | ReferenceMarker

datatype event =
    Print string
  | LogWarning string
  | LogError string
  | ReadByte nat
  | WriteByte nat int
  | Acquire
  | Release
  | MarkerFindLocation marker_id pyval
  | MarkerResetLabels marker_id
  | MarkerUpdateLabels marker_id pyval pyval
  | DeltaSetMarkers marker_id marker_id
  | DeltaResetLabels
  | DeltaUpdateLabels
  | ChartSetData nat pyval
  | ChartSetCombinedData nat pyval pyval
  | ChartSetReference nat pyval
  | ChartSetCombinedReference nat pyval pyval
  | ChartResetReference nat
  | ChartUpdate nat
  | SetText string string
  | SetWindowTitle string
  | SetDisabled string bool
  | SetValue string int
  | UpdateTDR
  | Emit string

section \<open>Number formatting used by the print calls\<close>

definition hex_lower :: string where
  "hex_lower = ''0123456789abcdef''"

definition hex_upper :: string where
  "hex_upper = ''0123456789ABCDEF''"

fun hex_nat :: "string \<Rightarrow> nat \<Rightarrow> string" where
  "hex_nat ds n = (if n < 16 then [ds ! n] else hex_nat ds (n div 16) @ [ds ! (n mod 16)])"

declare hex_nat.simps [simp del]

text \<open>Python's \<^verbatim>\<open>hex(n)\<close>: lower-case digits after \<^verbatim>\<open>0x\<close>, a leading minus sign for a
  negative number.\<close>

definition hex :: "int \<Rightarrow> string" where
  "hex n = (if n < 0 then ''-0x'' @ hex_nat hex_lower (nat (- n))
            else ''0x'' @ hex_nat hex_lower (nat n))"

text \<open>The format specification \<^verbatim>\<open>:02X\<close> on a non-negative integer: upper-case digits, padded
  with zeros on the left to two characters.\<close>

definition fmt_02X :: "nat \<Rightarrow> string" where
  "fmt_02X n = (let ds = hex_nat hex_upper n in replicate (2 - length ds) CHR ''0'' @ ds)"

section \<open>The I2C expanders\<close>

text \<open>
  \<^verbatim>\<open>I2C_ADDRESSES = [0x20, 0x21, 0x22, 0x23]\<close>
\<close>

definition I2C_ADDRESSES :: "nat list" where
  "I2C_ADDRESSES = [0x20, 0x21, 0x22, 0x23]"

text \<open>
  The bus is hardware. What the code can observe of it is whether opening it succeeds
  (\<^verbatim>\<open>SMBus(bus)\<close>), whether a read of one byte at an address succeeds, and whether a write
  at an address raises (and then with which message).
\<close>

record hardware =
  bus_opens :: bool
  responds :: "nat \<Rightarrow> bool"
  write_error :: "nat \<Rightarrow> string option"

record PCF8574 =
  address :: nat
  state :: int
  available :: bool

text \<open>
  \<^verbatim>\<open>PCF8574.__init__\<close> with \<^verbatim>\<open>_check_device\<close> inlined: the probe reads one byte and
  catches every exception.
\<close>

definition PCF8574_init :: "hardware \<Rightarrow> nat \<Rightarrow> event list \<times> (error + PCF8574)" where
  "PCF8574_init hw addr =
     (if \<not> bus_opens hw then ([], Inl OSError)
      else ([ReadByte addr],
            Inr \<lparr>address = addr, state = 0x00, available = responds hw addr\<rparr>))"

definition write_all :: "hardware \<Rightarrow> PCF8574 \<Rightarrow> int \<Rightarrow> event list \<times> PCF8574" where
  "write_all hw self val =
     (if \<not> available self then
        ([Print (''El extensor en 0x'' @ fmt_02X (address self) @ '' no responde. Se omitira.'')],
         self)
      else
        (let val = val AND 0xFF;
             self = self\<lparr>state := val\<rparr>
         in case write_error hw (address self) of
              None \<Rightarrow> ([WriteByte (address self) (state self)], self)
            | Some e \<Rightarrow>
                ([WriteByte (address self) (state self),
                  Print (''Error al escribir en 0x'' @ fmt_02X (address self) @ '': '' @ e)],
                 self)))"

definition clear :: "hardware \<Rightarrow> PCF8574 \<Rightarrow> event list \<times> PCF8574" where
  "clear hw self = write_all hw self 0xFF"

section \<open>parse_four_inputs\<close>

text \<open>
  Strings are lists of \<open>char\<close>, that is of the code points 0 to 255. On this range
  \<^verbatim>\<open>str.isspace\<close> holds of U+0009 to U+000D, U+001C to U+0020, U+0085 and U+00A0, and the
  regular expression class \<^verbatim>\<open>\d\<close> matches exactly the ten ASCII digits. Input with code
  points above 255 is outside the model.
\<close>

definition isspace :: "char \<Rightarrow> bool" where
  "isspace c =
     (let n = (of_char c :: nat)
      in (9 \<le> n \<and> n \<le> 13) \<or> (28 \<le> n \<and> n \<le> 32) \<or> n = 133 \<or> n = 160)"

definition strip :: "string \<Rightarrow> string" where
  "strip s = rev (dropWhile isspace (rev (dropWhile isspace s)))"

text \<open>\<^verbatim>\<open>s.replace(" ", "")\<close>\<close>

definition replace_spaces :: "string \<Rightarrow> string" where
  "replace_spaces s = filter (\<lambda>c. c \<noteq> CHR '' '') s"

definition is_decimal :: "char \<Rightarrow> bool" where
  "is_decimal c = (let n = (of_char c :: nat) in 48 \<le> n \<and> n \<le> 57)"

text \<open>One \<^verbatim>\<open>\[(\d{4})\]\<close> of the pattern: the captured group and the rest of the input.\<close>

fun match_group :: "string \<Rightarrow> (string \<times> string) option" where
  "match_group (b # d1 # d2 # d3 # d4 # e # rest) =
     (if b = CHR ''['' \<and> is_decimal d1 \<and> is_decimal d2 \<and> is_decimal d3 \<and> is_decimal d4
         \<and> e = CHR '']''
      then Some ([d1, d2, d3, d4], rest) else None)"
| "match_group _ = None"

text \<open>
  \<^verbatim>\<open>re.fullmatch(r"\[(\d{4})\]\[(\d{4})\]\[(\d{4})\]\[(\d{4})\]", input_str)\<close>, returning
  \<^verbatim>\<open>[match.group(i) for i in range(1, 5)]\<close> when there is a match.
\<close>

definition fullmatch :: "string \<Rightarrow> string list option" where
  "fullmatch s =
     (case match_group s of None \<Rightarrow> None | Some (g1, r1) \<Rightarrow>
      case match_group r1 of None \<Rightarrow> None | Some (g2, r2) \<Rightarrow>
      case match_group r2 of None \<Rightarrow> None | Some (g3, r3) \<Rightarrow>
      case match_group r3 of None \<Rightarrow> None | Some (g4, r4) \<Rightarrow>
      if r4 = [] then Some [g1, g2, g3, g4] else None)"

text \<open>
  \<^verbatim>\<open>int(bits, 2)\<close> on a string of ASCII digits, which is all the pattern lets through: the
  binary value when every digit is 0 or 1, \<^verbatim>\<open>ValueError\<close> otherwise.
\<close>

definition int_base2 :: "string \<Rightarrow> error + int" where
  "int_base2 bits =
     (if bits \<noteq> [] \<and> list_all (\<lambda>c. c = CHR ''0'' \<or> c = CHR ''1'') bits
      then Inr (foldl (\<lambda>a c. 2 * a + (if c = CHR ''1'' then 1 else 0)) 0 bits)
      else Inl ValueError)"

text \<open>The loop \<^verbatim>\<open>for bits in bitgroups\<close>, with \<^verbatim>\<open>byte_values\<close> as accumulator.\<close>

fun encode_loop :: "int list \<Rightarrow> string list \<Rightarrow> error + int list" where
  "encode_loop byte_values [] = Inr byte_values"
| "encode_loop byte_values (bits # rest) =
     (case int_base2 bits of
        Inl e \<Rightarrow> Inl e
      | Inr nibble \<Rightarrow>
          (let complement = (NOT nibble) AND 0x0F;
               byte = (push_bit 4 nibble) OR complement
           in encode_loop (byte_values @ [byte]) rest))"

definition invalid_format_message :: string where
  "invalid_format_message = ''? Formato invalido. Use [XXXX][XXXX][XXXX][XXXX] con 0s y 1s.''"

definition parse_four_inputs :: "string \<Rightarrow> event list \<times> (error + int list option)" where
  "parse_four_inputs input_str =
     (let input_str = replace_spaces (strip input_str)
      in case fullmatch input_str of
           None \<Rightarrow> ([Print invalid_format_message], Inr None)
         | Some bitgroups \<Rightarrow>
             (case encode_loop [] bitgroups of
                Inl e \<Rightarrow> ([], Inl e)
              | Inr byte_values \<Rightarrow> ([], Inr (Some byte_values))))"

section \<open>configure_pa\<close>

text \<open>The list comprehension \<^verbatim>\<open>[PCF8574(addr) for addr in I2C_ADDRESSES]\<close>.\<close>

fun make_expanders :: "hardware \<Rightarrow> nat list \<Rightarrow> event list \<times> (error + PCF8574 list)" where
  "make_expanders hw [] = ([], Inr [])"
| "make_expanders hw (addr # addrs) =
     (case PCF8574_init hw addr of
        (ev, Inl e) \<Rightarrow> (ev, Inl e)
      | (ev, Inr x) \<Rightarrow>
          (case make_expanders hw addrs of
             (ev', Inl e) \<Rightarrow> (ev @ ev', Inl e)
           | (ev', Inr xs) \<Rightarrow> (ev @ ev', Inr (x # xs))))"

text \<open>The loop over \<^verbatim>\<open>enumerate(expanders)\<close> that reports which expanders answered.\<close>

fun report_expanders :: "nat \<Rightarrow> PCF8574 list \<Rightarrow> event list" where
  "report_expanders i [] = []"
| "report_expanders i (expander # rest) =
     (if available expander
      then Print (''Extensor detectado en 0x'' @ fmt_02X (I2C_ADDRESSES ! i))
      else Print (''Extensor NO detectado en 0x'' @ fmt_02X (I2C_ADDRESSES ! i)))
     # report_expanders (Suc i) rest"

fun clear_all :: "hardware \<Rightarrow> PCF8574 list \<Rightarrow> event list" where
  "clear_all hw [] = []"
| "clear_all hw (expander # rest) = fst (clear hw expander) @ clear_all hw rest"

text \<open>The loop over \<^verbatim>\<open>zip(expanders, result)\<close>, which stops with the shorter list.\<close>

fun write_values :: "hardware \<Rightarrow> PCF8574 list \<Rightarrow> int list \<Rightarrow> event list" where
  "write_values hw (expander # rest) (v # vs) =
     fst (write_all hw expander v) @ [Print ''Escritura completada.''] @ write_values hw rest vs"
| "write_values hw _ _ = []"

text \<open>
  \<^verbatim>\<open>print("[",hex(result[0]),"][",hex(result[1]),"][",hex(result[2]),"][",hex(result[3]),"]")\<close>:
  subscripting \<^verbatim>\<open>None\<close> raises \<^verbatim>\<open>TypeError\<close>, an index past the end \<^verbatim>\<open>IndexError\<close>;
  \<^verbatim>\<open>print\<close> joins its arguments with single spaces.
\<close>

definition print_result :: "int list option \<Rightarrow> event list \<times> (error + unit)" where
  "print_result result =
     (case result of
        None \<Rightarrow> ([], Inl TypeError)
      | Some r \<Rightarrow>
          if length r < 4 then ([], Inl IndexError)
          else ([Print (''[ '' @ hex (r ! 0) @ '' ][ '' @ hex (r ! 1) @ '' ][ '' @ hex (r ! 2)
                        @ '' ][ '' @ hex (r ! 3) @ '' ]'')], Inr ()))"

text \<open>
  \<^verbatim>\<open>configure_pa\<close>. The module never defines the global \<^verbatim>\<open>args\<close>; the value of
  \<^verbatim>\<open>args.clear is True\<close> is the parameter \<open>args_clear\<close>. The result is the list of
  events and the exception that left the method, if any.
\<close>

definition configure_pa :: "bool \<Rightarrow> hardware \<Rightarrow> string \<Rightarrow> event list \<times> error option" where
  "configure_pa args_clear hw cfg =
     (case make_expanders hw I2C_ADDRESSES of
        (ev0, Inl e) \<Rightarrow> (LogWarning ''Triggered PA config'' # ev0, Some e)
      | (ev0, Inr expanders) \<Rightarrow>
          (let ev1 = LogWarning ''Triggered PA config'' # ev0 @ report_expanders 0 expanders
           in if args_clear then
                (ev1 @ [Print ''Clearing''] @ clear_all hw expanders, None)
              else
                (case parse_four_inputs cfg of
                   (ev2, Inl e) \<Rightarrow> (ev1 @ ev2, Some e)
                 | (ev2, Inr result) \<Rightarrow>
                     (case print_result result of
                        (ev3, Inl e) \<Rightarrow> (ev1 @ ev2 @ ev3, Some e)
                      | (ev3, Inr _) \<Rightarrow>
                          (case result of
                             None \<Rightarrow> (ev1 @ ev2 @ ev3, None)
                           | Some r \<Rightarrow>
                               if r = [] then (ev1 @ ev2 @ ev3, None)
                               else (ev1 @ ev2 @ ev3 @ write_values hw expanders r, None))))))"

text \<open>The bus writes among a list of events.\<close>

fun is_write :: "event \<Rightarrow> bool" where
  "is_write (WriteByte _ _) = True"
| "is_write _ = False"

definition writes :: "event list \<Rightarrow> event list" where
  "writes evs = filter is_write evs"

section \<open>The application object\<close>

subsection \<open>Python built-ins the methods use\<close>

fun str_nat :: "nat \<Rightarrow> string" where
  "str_nat n = (if n < 10 then [''0123456789'' ! n]
                else str_nat (n div 10) @ [''0123456789'' ! (n mod 10)])"

declare str_nat.simps [simp del]

text \<open>The truth value of \<^verbatim>\<open>None\<close> or a list.\<close>

definition truthy :: "pyval \<Rightarrow> bool" where
  "truthy v = (case v of PyNone \<Rightarrow> False | PyList _ xs \<Rightarrow> xs \<noteq> [])"

definition py_len :: "pyval \<Rightarrow> error + nat" where
  "py_len v = (case v of PyNone \<Rightarrow> Inl TypeError | PyList _ xs \<Rightarrow> Inr (length xs))"

text \<open>\<^verbatim>\<open>v[:]\<close>, with \<open>n\<close> the next unused identity: the copy and the next unused identity
  after it.\<close>

definition slice_copy :: "pyval \<Rightarrow> nat \<Rightarrow> error + (pyval \<times> nat)" where
  "slice_copy v n = (case v of PyNone \<Rightarrow> Inl TypeError | PyList _ xs \<Rightarrow> Inr (PyList n xs, Suc n))"

text \<open>
  \<^verbatim>\<open>min(xs, key=key)\<close> and \<^verbatim>\<open>max(xs, key=key)\<close>: the first element is the candidate, and a
  later element replaces it only when its key is strictly smaller (strictly greater for
  \<^verbatim>\<open>max\<close>). Both raise \<^verbatim>\<open>ValueError\<close> on an empty list.
\<close>

fun min_loop :: "('a \<Rightarrow> 'k::linorder) \<Rightarrow> 'a \<Rightarrow> 'a list \<Rightarrow> 'a" where
  "min_loop key best [] = best"
| "min_loop key best (x # xs) = (if key x < key best then min_loop key x xs
                                 else min_loop key best xs)"

definition py_min :: "('a \<Rightarrow> 'k::linorder) \<Rightarrow> 'a list \<Rightarrow> error + 'a" where
  "py_min key xs = (case xs of [] \<Rightarrow> Inl ValueError | x # rest \<Rightarrow> Inr (min_loop key x rest))"

fun max_loop :: "('a \<Rightarrow> 'k::linorder) \<Rightarrow> 'a \<Rightarrow> 'a list \<Rightarrow> 'a" where
  "max_loop key best [] = best"
| "max_loop key best (x # xs) = (if key x > key best then max_loop key x xs
                                 else max_loop key best xs)"

definition py_max :: "('a \<Rightarrow> 'k::linorder) \<Rightarrow> 'a list \<Rightarrow> error + 'a" where
  "py_max key xs = (case xs of [] \<Rightarrow> Inl ValueError | x # rest \<Rightarrow> Inr (max_loop key x rest))"

text \<open>\<^verbatim>\<open>int(x)\<close> on a float rounds towards zero.\<close>

definition int_of_float :: "real \<Rightarrow> int" where
  "int_of_float x = (if 0 \<le> x then \<lfloor>x\<rfloor> else \<lceil>x\<rceil>)"

text \<open>
  \<^verbatim>\<open>strftime("%Y-%m-%d %H:%M:%S", localtime())\<close>: the clock is an input, the broken-down local
  time \<open>struct_time\<close>; the year is printed in full and the other fields with two digits.
\<close>

record struct_time =
  tm_year :: nat
  tm_mon :: nat
  tm_mday :: nat
  tm_hour :: nat
  tm_min :: nat
  tm_sec :: nat

definition two_digits :: "nat \<Rightarrow> string" where
  "two_digits n = (if n < 10 then CHR ''0'' # str_nat n else str_nat n)"

definition strftime :: "struct_time \<Rightarrow> string" where
  "strftime t = str_nat (tm_year t) @ ''-'' @ two_digits (tm_mon t) @ ''-'' @ two_digits (tm_mday t)
                @ '' '' @ two_digits (tm_hour t) @ '':'' @ two_digits (tm_min t) @ '':''
                @ two_digits (tm_sec t)"

subsection \<open>Objects of classes defined outside the module\<close>

text \<open>
  A \<^verbatim>\<open>Touchstone\<close> object holds the two sequences. The two objects of the application,
  \<^verbatim>\<open>self.data\<close> and \<^verbatim>\<open>self.ref_data\<close>, are created separately and no statement makes one name
  refer to the other's object, so each is a record of its own in the state.
\<close>

record Touchstone =
  s11 :: pyval
  s21 :: pyval

text \<open>
  A marker, as far as the module is concerned: its name, the attribute \<^verbatim>\<open>location\<close> (which
  the module reads and assigns) and the values it displays (\<open>[]\<close> when its labels are blank).
\<close>

record Marker =
  name :: string
  location :: int
  labels :: "real list"

text \<open>The delta marker: the two markers it was last given and the values it displays.\<close>

record DeltaMarker =
  marker_a :: "Marker option"
  marker_b :: "Marker option"
  delta_labels :: "real list"

text \<open>
  The functions and methods the module calls but does not define are parameters: the three
  formatting functions, \<^verbatim>\<open>corr_att_data\<close>, the constructor \<^verbatim>\<open>Marker(name)\<close>, the location
  \<^verbatim>\<open>findLocation\<close> stores, the values \<^verbatim>\<open>updateLabels\<close> displays, and \<open>delta_IndexError\<close>,
  which is \<open>None\<close> for two markers on which \<^verbatim>\<open>DeltaMarker.updateLabels\<close> returns and, for two
  markers on which it raises the \<^verbatim>\<open>IndexError\<close> that the module suppresses, the values the
  delta marker displays by then.
\<close>

record collaborators =
  format_vswr :: "real \<Rightarrow> string"
  format_frequency :: "int \<Rightarrow> string"
  format_gain :: "real \<Rightarrow> string"
  corr_att_data :: "pyval \<Rightarrow> real \<Rightarrow> Datapoint list"
  new_Marker :: "string \<Rightarrow> Marker"
  findLocation :: "Marker \<Rightarrow> pyval \<Rightarrow> int"
  updateLabels :: "Marker \<Rightarrow> pyval \<Rightarrow> pyval \<Rightarrow> real list"
  delta_IndexError :: "Marker \<Rightarrow> Marker \<Rightarrow> real list option"

text \<open>
  Modelled from the spec: the truth value of a \<^verbatim>\<open>Touchstone\<close> object (class not in the
  module). Reference data exists when one of the two sequences has an element; the object
  made by \<^verbatim>\<open>Touchstone()\<close> is the state without reference data.
\<close>

definition Touchstone_bool :: "Touchstone \<Rightarrow> bool" where
  "Touchstone_bool t = (truthy (s11 t) \<or> truthy (s21 t))"

text \<open>
  Modelled from the spec: \<^verbatim>\<open>Marker.resetLabels\<close> and \<^verbatim>\<open>DeltaMarker.resetLabels\<close> (classes
  not in the module) blank the displayed values.
\<close>

definition resetLabels :: "Marker \<Rightarrow> Marker" where
  "resetLabels m = m\<lparr>labels := []\<rparr>"

definition delta_resetLabels :: "DeltaMarker \<Rightarrow> DeltaMarker" where
  "delta_resetLabels d = d\<lparr>delta_labels := []\<rparr>"

text \<open>
  Modelled from the spec: \<^verbatim>\<open>DeltaMarker.updateLabels\<close> (class not in the module) displays, field
  by field, the value of the second marker minus the value of the first.
\<close>

definition delta_updateLabels :: "DeltaMarker \<Rightarrow> DeltaMarker" where
  "delta_updateLabels d =
     (case (marker_a d, marker_b d) of
        (Some a, Some b) \<Rightarrow> d\<lparr>delta_labels := map2 (\<lambda>y x. y - x) (labels b) (labels a)\<rparr>
      | _ \<Rightarrow> d)"

text \<open>
  Modelled from the spec: \<^verbatim>\<open>Touchstone()\<close> (class not in the module) is the state without
  data, two new empty lists.
\<close>

definition new_Touchstone :: "nat \<Rightarrow> Touchstone \<times> nat" where
  "new_Touchstone n = (\<lparr>s11 = PyList n [], s21 = PyList (Suc n) []\<rparr>, Suc (Suc n))"

subsection \<open>The state\<close>

text \<open>
  The attributes of the \<^verbatim>\<open>NanoVNASaver\<close> object that the embedded methods read or assign.
  Widgets are represented by the value last set on them. Marker objects are changed in place
  and shared, so they are kept by identity: \<open>marker_objects\<close> gives the Marker object of each
  identity and \<open>markers\<close> is the list \<^verbatim>\<open>self.markers\<close> of identities. \<open>Marker_count\<close> is the
  class-level \<^verbatim>\<open>Marker.count()\<close>, \<open>percentage\<close> is \<^verbatim>\<open>self.worker.percentage\<close>, \<open>sweep_name\<close> is
  \<^verbatim>\<open>self.sweep.properties.name\<close>, charts are named by numbers, and \<open>next_id\<close> is the first
  identity no list object has yet.
\<close>

record NanoVNASaver =
  data :: Touchstone
  ref_data :: Touchstone
  sweepSource :: string
  referenceSource :: string
  s21att :: real
  sweep_name :: string
  baseTitle :: string
  windowTitle :: string
  btnResetReference_disabled :: bool
  s11_min_swr_label :: string
  s11_min_rl_label :: string
  s21_min_gain_label :: string
  s21_max_gain_label :: string
  progress_bar :: int
  percentage :: real
  markers :: "nat list"
  marker_objects :: "nat \<Rightarrow> Marker"
  Marker_count :: nat
  marker_ref :: bool
  delta_marker :: DeltaMarker
  delta_marker_layout_hidden :: bool
  s11charts :: "nat list"
  s21charts :: "nat list"
  combinedCharts :: "nat list"
  subscribing_charts :: "nat list"
  next_id :: nat

subsection \<open>updateTitle\<close>

definition updateTitle :: "NanoVNASaver \<Rightarrow> event list \<times> (error + NanoVNASaver)" where
  "updateTitle self =
     (let insert = ''(''
      in case (if sweepSource self \<noteq> ''''
               then (case py_len (s11 (data self)) of
                       Inl e \<Rightarrow> Inl e
                     | Inr n \<Rightarrow>
                         Inr (insert @ ''Sweep: '' @ sweepSource self @ '' @ '' @ str_nat n
                              @ '' points'' @ (if referenceSource self \<noteq> '''' then '', '' else '''')))
               else Inr insert) of
           Inl e \<Rightarrow> ([], Inl e)
         | Inr insert \<Rightarrow>
      case (if referenceSource self \<noteq> ''''
               then (case py_len (s11 (ref_data self)) of
                       Inl e \<Rightarrow> Inl e
                     | Inr n \<Rightarrow>
                         Inr (insert @ ''Reference: '' @ referenceSource self @ '' @ '' @ str_nat n
                              @ '' points''))
               else Inr insert) of
           Inl e \<Rightarrow> ([], Inl e)
         | Inr insert \<Rightarrow>
             (let insert = insert @ '')'';
                  title = baseTitle self @ '' '' @ (if insert \<noteq> '''' then insert else '''')
              in ([SetWindowTitle title], Inr (self\<lparr>windowTitle := title\<rparr>))))"

subsection \<open>saveData\<close>

text \<open>
  The arguments are \<^verbatim>\<open>data\<close>, \<^verbatim>\<open>data21\<close> and \<^verbatim>\<open>source\<close> (\<open>None\<close> when omitted), and the local
  time at the call.
\<close>

definition saveData ::
  "collaborators \<Rightarrow> pyval \<Rightarrow> pyval \<Rightarrow> string option \<Rightarrow> struct_time \<Rightarrow> NanoVNASaver
     \<Rightarrow> event list \<times> NanoVNASaver" where
  "saveData env data_arg data21 source now self =
     (let self = self\<lparr>data := (data self)\<lparr>s11 := data_arg\<rparr>\<rparr>;
          self = self\<lparr>data := (data self)\<lparr>s21 := data21\<rparr>\<rparr>;
          self = (if s21att self > 0
                  then self\<lparr>data := (data self)\<lparr>s21 :=
                              PyList (next_id self) (corr_att_data env (s21 (data self)) (s21att self))\<rparr>,
                            next_id := Suc (next_id self)\<rparr>
                  else self)
      in ([Acquire, Release],
          case source of
            Some src \<Rightarrow> self\<lparr>sweepSource := src\<rparr>
          | None \<Rightarrow>
              (let time = strftime now;
                   name = (if sweep_name self \<noteq> '''' then sweep_name self else ''nanovna'')
               in self\<lparr>sweepSource := name @ ''_'' @ time\<rparr>)))"

subsection \<open>markerUpdated\<close>

text \<open>The loop \<^verbatim>\<open>for c in self.subscribing_charts: c.update()\<close>.\<close>

definition update_charts :: "nat list \<Rightarrow> event list" where
  "update_charts cs = map ChartUpdate cs"

text \<open>The three calls on the marker under the lock (lines 530 to 532), as the new value of
  the marker.\<close>

definition update_marker :: "collaborators \<Rightarrow> Marker \<Rightarrow> Touchstone \<Rightarrow> Marker" where
  "update_marker env marker d =
     (let marker = marker\<lparr>location := findLocation env marker (s11 d)\<rparr>;
          marker = resetLabels marker;
          marker = marker\<lparr>labels := updateLabels env marker (s11 d) (s21 d)\<rparr>
      in marker)"

text \<open>
  The second operand of the delta marker (lines 537 to 548): \<^verbatim>\<open>m2\<close>, or \<open>None\<close>, with the
  calls made on the way. \<open>m1\<close> is the first marker, which line 536 has read by then.
  \<open>reference_marker\<close> is the marker built at lines 540 to 543 from \<open>m1\<close> and the reference data.
  \<^verbatim>\<open>self.markers[1]\<close> raises \<^verbatim>\<open>IndexError\<close> on a list of one marker.
\<close>

definition reference_marker :: "collaborators \<Rightarrow> Marker \<Rightarrow> Touchstone \<Rightarrow> Marker" where
  "reference_marker env m1 ref =
     (let m2 = new_Marker env ''Reference'';
          m2 = m2\<lparr>location := location m1\<rparr>;
          m2 = resetLabels m2;
          m2 = m2\<lparr>labels := updateLabels env m2 (s11 ref) (s21 ref)\<rparr>
      in m2)"

definition second_operand ::
  "collaborators \<Rightarrow> Marker \<Rightarrow> NanoVNASaver
     \<Rightarrow> event list \<times> (error + (marker_id \<times> Marker) option)" where
  "second_operand env m1 self =
     (if marker_ref self then
        (if Touchstone_bool (ref_data self) then
           ([MarkerResetLabels ReferenceMarker,
             MarkerUpdateLabels ReferenceMarker (s11 (ref_data self)) (s21 (ref_data self))],
            Inr (Some (ReferenceMarker, reference_marker env m1 (ref_data self))))
         else ([LogWarning ''No reference data for marker''], Inr None))
      else if Marker_count self \<ge> 2 then
        (case markers self of
           _ # i2 # _ \<Rightarrow> ([], Inr (Some (LiveMarker i2, marker_objects self i2)))
         | _ \<Rightarrow> ([], Inl IndexError))
      else ([], Inr None))"

text \<open>
  The argument \<open>marker\<close> is the identity of the Marker object that was updated; it may or may
  not be one of \<^verbatim>\<open>self.markers\<close>. \<^verbatim>\<open>m1 = self.markers[0]\<close> raises \<^verbatim>\<open>IndexError\<close> on an empty
  list. The delta marker reads its two markers only in \<^verbatim>\<open>updateLabels\<close>, right after
  \<^verbatim>\<open>set_markers\<close>, so it holds the values they have at that moment. When \<^verbatim>\<open>updateLabels\<close>
  raises \<^verbatim>\<open>IndexError\<close>, the exception is suppressed and the display is what the call left.
\<close>

definition markerUpdated ::
  "collaborators \<Rightarrow> nat \<Rightarrow> NanoVNASaver \<Rightarrow> event list \<times> (error + NanoVNASaver)" where
  "markerUpdated env marker self =
     (let self = self\<lparr>marker_objects := (marker_objects self)
                   (marker := update_marker env (marker_objects self marker) (data self))\<rparr>;
          locked = [Acquire,
                    MarkerFindLocation (LiveMarker marker) (s11 (data self)),
                    MarkerResetLabels (LiveMarker marker),
                    MarkerUpdateLabels (LiveMarker marker) (s11 (data self)) (s21 (data self))]
                   @ update_charts (subscribing_charts self) @ [Release]
      in if delta_marker_layout_hidden self then (locked, Inr self)
         else
           (case markers self of
              [] \<Rightarrow> (locked, Inl IndexError)
            | i1 # _ \<Rightarrow>
                (let m1 = marker_objects self i1
                 in case second_operand env m1 self of
                      (ev, Inl e) \<Rightarrow> (locked @ ev, Inl e)
                    | (ev, Inr None) \<Rightarrow>
                        (locked @ ev
                           @ [LogError ''No data for delta, missing marker or reference''],
                         Inr self)
                    | (ev, Inr (Some (id2, m2))) \<Rightarrow>
                        (let d = (delta_marker self)\<lparr>marker_a := Some m1, marker_b := Some m2\<rparr>;
                             d = delta_resetLabels d;
                             d = (case delta_IndexError env m1 m2 of
                                    None \<Rightarrow> delta_updateLabels d
                                  | Some shown \<Rightarrow> d\<lparr>delta_labels := shown\<rparr>)
                         in (locked @ ev @ [DeltaSetMarkers (LiveMarker i1) id2, DeltaResetLabels,
                                            DeltaUpdateLabels],
                             Inr (self\<lparr>delta_marker := d\<rparr>))))))"

subsection \<open>dataUpdated\<close>

text \<open>The loop over \<^verbatim>\<open>self.markers\<close>, on the Marker objects \<open>objs\<close>.\<close>

fun refresh_markers ::
  "collaborators \<Rightarrow> pyval \<Rightarrow> pyval \<Rightarrow> nat list \<Rightarrow> (nat \<Rightarrow> Marker)
     \<Rightarrow> event list \<times> (nat \<Rightarrow> Marker)" where
  "refresh_markers env a b [] objs = ([], objs)"
| "refresh_markers env a b (i # rest) objs =
     (let m = resetLabels (objs i);
          m = m\<lparr>labels := updateLabels env m a b\<rparr>;
          (ev, objs) = refresh_markers env a b rest (objs(i := m))
      in ([MarkerResetLabels (LiveMarker i), MarkerUpdateLabels (LiveMarker i) a b] @ ev, objs))"

text \<open>The two label texts for S11 (lines 579 to 588), from the elements of the copy. On a list
  that is not empty \<^verbatim>\<open>min\<close> and \<^verbatim>\<open>max\<close> do not raise; the branch for their error is there
  because the model's functions are total.\<close>

definition s11_labels :: "collaborators \<Rightarrow> Datapoint list \<Rightarrow> string \<times> string" where
  "s11_labels env xs =
     (if xs \<noteq> [] then
        (case py_min vswr xs of
           Inr min_vswr \<Rightarrow>
             (format_vswr env (vswr min_vswr) @ '' @ '' @ format_frequency env (freq min_vswr),
              format_gain env (gain min_vswr))
         | Inl _ \<Rightarrow> ('''', ''''))
      else ('''', ''''))"

text \<open>The two label texts for S21 (lines 590 to 603).\<close>

definition s21_labels :: "collaborators \<Rightarrow> Datapoint list \<Rightarrow> string \<times> string" where
  "s21_labels env ys =
     (if ys \<noteq> [] then
        (case (py_min gain ys, py_max gain ys) of
           (Inr min_gain, Inr max_gain) \<Rightarrow>
             (format_gain env (gain min_gain) @ '' @ '' @ format_frequency env (freq min_gain),
              format_gain env (gain max_gain) @ '' @ '' @ format_frequency env (freq max_gain))
         | _ \<Rightarrow> ('''', ''''))
      else ('''', ''''))"

definition dataUpdated ::
  "collaborators \<Rightarrow> NanoVNASaver \<Rightarrow> event list \<times> (error + NanoVNASaver)" where
  "dataUpdated env self =
     (case slice_copy (s11 (data self)) (next_id self) of
        Inl e \<Rightarrow> ([Acquire, Release], Inl e)
      | Inr (s11_copy, n) \<Rightarrow>
     (case slice_copy (s21 (data self)) n of
        Inl e \<Rightarrow> ([Acquire, Release], Inl e)
      | Inr (s21_copy, n) \<Rightarrow>
         (let self = self\<lparr>next_id := n\<rparr>;
              (ev_markers, objs) = refresh_markers env s11_copy s21_copy (markers self)
                                     (marker_objects self);
              self = self\<lparr>marker_objects := objs\<rparr>;
              ev_charts = map (\<lambda>c. ChartSetData c s11_copy) (s11charts self)
                          @ map (\<lambda>c. ChartSetData c s21_copy) (s21charts self)
                          @ map (\<lambda>c. ChartSetCombinedData c s11_copy s21_copy) (combinedCharts self);
              self = self\<lparr>progress_bar := int_of_float (percentage self)\<rparr>;
              (swr, rl) = (case s11_copy of PyList _ xs \<Rightarrow> s11_labels env xs
                           | PyNone \<Rightarrow> ('''', ''''));
              self = self\<lparr>s11_min_swr_label := swr, s11_min_rl_label := rl\<rparr>;
              (lo, hi) = (case s21_copy of PyList _ ys \<Rightarrow> s21_labels env ys
                          | PyNone \<Rightarrow> ('''', ''''));
              self = self\<lparr>s21_min_gain_label := lo, s21_max_gain_label := hi\<rparr>;
              ev = [Acquire, Release] @ ev_markers @ ev_charts
                   @ [SetValue ''progress_bar'' (progress_bar self), UpdateTDR,
                      SetText ''s11_min_swr_label'' swr, SetText ''s11_min_rl_label'' rl,
                      SetText ''s21_min_gain_label'' lo, SetText ''s21_max_gain_label'' hi]
          in case updateTitle self of
               (ev_title, Inl e) \<Rightarrow> (ev @ ev_title, Inl e)
             | (ev_title, Inr self) \<Rightarrow>
                 (ev @ ev_title @ [Emit ''data_available''], Inr self))))"

subsection \<open>setReference\<close>

text \<open>
  The arguments \<^verbatim>\<open>s11\<close>, \<^verbatim>\<open>s21\<close> and \<^verbatim>\<open>source\<close>; an omitted argument is \<^verbatim>\<open>None\<close>.
\<close>

definition setReference ::
  "pyval \<Rightarrow> pyval \<Rightarrow> string option \<Rightarrow> NanoVNASaver \<Rightarrow> event list \<times> (error + NanoVNASaver)" where
  "setReference s11_arg s21_arg source self =
     (case (if \<not> truthy s11_arg
            then (case slice_copy (s11 (data self)) (next_id self) of
                    Inl e \<Rightarrow> Inl e
                  | Inr (a, n) \<Rightarrow>
                      (case slice_copy (s21 (data self)) n of
                         Inl e \<Rightarrow> Inl e
                       | Inr (b, n) \<Rightarrow> Inr ([Acquire, Release], a, b, n)))
            else Inr ([], s11_arg, s21_arg, next_id self)) of
        Inl e \<Rightarrow> ([Acquire, Release], Inl e)
      | Inr (ev_lock, s11_val, s21_val, n) \<Rightarrow>
          (let self = self\<lparr>next_id := n\<rparr>;
               self = self\<lparr>ref_data := (ref_data self)\<lparr>s11 := s11_val\<rparr>\<rparr>;
               ev11 = map (\<lambda>c. ChartSetReference c s11_val) (s11charts self);
               self = self\<lparr>ref_data := (ref_data self)\<lparr>s21 := s21_val\<rparr>\<rparr>;
               ev21 = map (\<lambda>c. ChartSetReference c s21_val) (s21charts self);
               evc = map (\<lambda>c. ChartSetCombinedReference c s11_val s21_val) (combinedCharts self);
               self = self\<lparr>btnResetReference_disabled := False\<rparr>;
               self = self\<lparr>referenceSource :=
                        (case source of
                           None \<Rightarrow> sweepSource self
                         | Some src \<Rightarrow> if src \<noteq> '''' then src else sweepSource self)\<rparr>;
               ev = ev_lock @ ev11 @ ev21 @ evc @ [SetDisabled ''btnResetReference'' False]
           in case updateTitle self of
                (ev_title, Inl e) \<Rightarrow> (ev @ ev_title, Inl e)
              | (ev_title, Inr self) \<Rightarrow> (ev @ ev_title, Inr self)))"

subsection \<open>resetReference\<close>

definition resetReference :: "NanoVNASaver \<Rightarrow> event list \<times> (error + NanoVNASaver)" where
  "resetReference self =
     (let (t, n) = new_Touchstone (next_id self);
          self = self\<lparr>ref_data := t, next_id := n\<rparr>;
          self = self\<lparr>referenceSource := ''''\<rparr>
      in case updateTitle self of
           (ev_title, Inl e) \<Rightarrow> (ev_title, Inl e)
         | (ev_title, Inr self) \<Rightarrow>
             (ev_title @ map ChartResetReference (subscribing_charts self)
                @ [SetDisabled ''btnResetReference'' True],
              Inr (self\<lparr>btnResetReference_disabled := True\<rparr>)))"

subsection \<open>The lock\<close>

text \<open>The events of a trace that happen while the data lock is held, \<open>h\<close> telling whether
  it is held at the start.\<close>

fun under_lock :: "bool \<Rightarrow> event list \<Rightarrow> event list" where
  "under_lock h [] = []"
| "under_lock h (Acquire # es) = under_lock True es"
| "under_lock h (Release # es) = under_lock False es"
| "under_lock h (e # es) = (if h then e # under_lock h es else under_lock h es)"

section \<open>Reference notions for the parser\<close>

text \<open>
  The next definitions are not code of the module. They say what the specification means by a
  configuration string \<^verbatim>\<open>[bbbb][bbbb][bbbb][bbbb]\<close> with four given nibbles, by a string with
  space characters inserted, and they fix a bus for the worked examples (the expander at 0x22
  is absent; no write fails).
\<close>

definition bit_char :: "bool \<Rightarrow> char" where
  "bit_char b = (if b then CHR ''1'' else CHR ''0'')"

definition bits4 :: "int \<Rightarrow> string" where
  "bits4 n = [bit_char (bit n 3), bit_char (bit n 2), bit_char (bit n 1), bit_char (bit n 0)]"

definition config_string :: "int \<Rightarrow> int \<Rightarrow> int \<Rightarrow> int \<Rightarrow> string" where
  "config_string a b c d =
     ''['' @ bits4 a @ '']['' @ bits4 b @ '']['' @ bits4 c @ '']['' @ bits4 d @ '']''"

text \<open>\<open>spaced s t\<close>: the string \<open>t\<close> is \<open>s\<close> with any number of space characters (U+0020)
  inserted at any positions.\<close>

inductive spaced :: "string \<Rightarrow> string \<Rightarrow> bool" where
  spaced_Nil: "spaced [] []"
| spaced_insert: "spaced s t \<Longrightarrow> spaced s (CHR '' '' # t)"
| spaced_keep: "spaced s t \<Longrightarrow> spaced (c # s) (c # t)"

definition example_hardware :: hardware where
  "example_hardware =
     \<lparr>bus_opens = True, responds = (\<lambda>addr. addr \<noteq> 0x22), write_error = (\<lambda>addr. None)\<rparr>"

section \<open>Reference notions for the application\<close>

text \<open>
  Again not code of the module: a run of later calls of \<^verbatim>\<open>saveData\<close>, each with its arguments
  and the local time at the call, and the collaborators, sweeps and application states of the
  worked examples. In the examples \<^verbatim>\<open>updateLabels\<close> displays the frequency and the VSWR of the
  S11 point at the marker's location, and \<^verbatim>\<open>DeltaMarker.updateLabels\<close> raises, having
  displayed nothing, when one of its markers displays nothing.
\<close>

fun saveData_calls ::
  "collaborators \<Rightarrow> (pyval \<times> pyval \<times> string option \<times> struct_time) list \<Rightarrow> NanoVNASaver
     \<Rightarrow> NanoVNASaver" where
  "saveData_calls env [] self = self"
| "saveData_calls env ((d, d21, src, now) # calls) self =
     saveData_calls env calls (snd (saveData env d d21 src now self))"

definition example_collaborators :: collaborators where
  "example_collaborators =
     \<lparr>format_vswr = (\<lambda>v. if v < 2 then ''low'' else ''high''),
      format_frequency = (\<lambda>f. str_nat (nat f) @ ''Hz''),
      format_gain = (\<lambda>g. if g < 0 then ''loss'' else ''gain''),
      corr_att_data = (\<lambda>v att. case v of PyNone \<Rightarrow> [] | PyList _ ys \<Rightarrow> ys),
      new_Marker = (\<lambda>n. \<lparr>name = n, location = - 1, labels = []\<rparr>),
      findLocation = (\<lambda>m v. 1),
      updateLabels = (\<lambda>m a b. case a of PyNone \<Rightarrow> []
                        | PyList _ xs \<Rightarrow> if 0 \<le> location m \<and> nat (location m) < length xs
                                         then [real_of_int (freq (xs ! nat (location m))),
                                               vswr (xs ! nat (location m))]
                                         else []),
      delta_IndexError = (\<lambda>a b. if labels a = [] \<or> labels b = [] then Some [] else None)\<rparr>"

definition example_sweep :: "Datapoint list" where
  "example_sweep =
     [\<lparr>freq = 1000000, vswr = 1.2, gain = - 20.8\<rparr>,
      \<lparr>freq = 2000000, vswr = 1.05, gain = - 32.3\<rparr>,
      \<lparr>freq = 3000000, vswr = 3.0, gain = - 6\<rparr>,
      \<lparr>freq = 4000000, vswr = 1.05, gain = - 32.3\<rparr>]"

definition example_reference :: "Datapoint list" where
  "example_reference =
     [\<lparr>freq = 1000000, vswr = 1.5, gain = - 14\<rparr>,
      \<lparr>freq = 2000000, vswr = 1.3, gain = - 17.7\<rparr>]"

text \<open>One marker, the delta marker shown and blank as it is created, no reference.\<close>

definition example_app :: NanoVNASaver where
  "example_app =
     \<lparr>data = \<lparr>s11 = PyList 0 example_sweep, s21 = PyList 1 []\<rparr>,
      ref_data = \<lparr>s11 = PyList 2 [], s21 = PyList 3 []\<rparr>,
      sweepSource = ''bench'',
      referenceSource = '''',
      s21att = 0,
      sweep_name = '''',
      baseTitle = ''NanoVNA Saver'',
      windowTitle = ''NanoVNA Saver (Sweep: bench @ 4 points)'',
      btnResetReference_disabled = True,
      s11_min_swr_label = '''',
      s11_min_rl_label = '''',
      s21_min_gain_label = '''',
      s21_max_gain_label = '''',
      progress_bar = 0,
      percentage = 100,
      markers = [0],
      marker_objects = (\<lambda>i. \<lparr>name = ''Marker'', location = 0, labels = []\<rparr>),
      Marker_count = 1,
      marker_ref = False,
      delta_marker = \<lparr>marker_a = None, marker_b = None, delta_labels = []\<rparr>,
      delta_marker_layout_hidden = False,
      s11charts = [0, 1],
      s21charts = [2],
      combinedCharts = [3],
      subscribing_charts = [0, 1, 2, 3, 4, 5],
      next_id = 4\<rparr>"

text \<open>The same with a second marker, which displays the last point of the sweep.\<close>

definition example_app2 :: NanoVNASaver where
  "example_app2 =
     example_app\<lparr>markers := [0, 1],
                 marker_objects := (marker_objects example_app)
                   (1 := \<lparr>name = ''Marker'', location = 3, labels = [4000000, 1.05]\<rparr>),
                 Marker_count := 2\<rparr>"

text \<open>No marker at all in \<^verbatim>\<open>self.markers\<close>.\<close>

definition example_no_marker :: NanoVNASaver where
  "example_no_marker = example_app\<lparr>markers := [], Marker_count := 0\<rparr>"

text \<open>Reference mode, first without reference data and then with a reference of two points.\<close>

definition example_ref_mode :: NanoVNASaver where
  "example_ref_mode = example_app\<lparr>marker_ref := True\<rparr>"

definition example_with_reference :: NanoVNASaver where
  "example_with_reference =
     example_app\<lparr>marker_ref := True,
                 ref_data := \<lparr>s11 = PyList 2 example_reference, s21 = PyList 3 []\<rparr>,
                 referenceSource := ''bench''\<rparr>"

definition example_time :: struct_time where
  "example_time =
     \<lparr>tm_year = 2026, tm_mon = 11, tm_mday = 4, tm_hour = 9, tm_min = 38, tm_sec = 7\<rparr>"

section \<open>Properties of the parser\<close>

subsection \<open>Spaces\<close>

lemma spaced_replace_spaces: "spaced s t \<Longrightarrow> replace_spaces t = replace_spaces s"
  by (induction rule: spaced.induct) (simp_all add: replace_spaces_def)

lemma filter_dropWhile_commute:
  "(\<And>x. \<not> P x \<Longrightarrow> Q x) \<Longrightarrow> filter P (dropWhile Q xs) = dropWhile Q (filter P xs)"
  by (induction xs) auto

lemma isspace_space: "c = CHR '' '' \<Longrightarrow> isspace c"
  by (simp add: isspace_def)

lemma replace_spaces_dropWhile:
  "replace_spaces (dropWhile isspace xs) = dropWhile isspace (replace_spaces xs)"
  unfolding replace_spaces_def
  by (rule filter_dropWhile_commute) (simp add: isspace_space)

lemma replace_spaces_rev: "replace_spaces (rev xs) = rev (replace_spaces xs)"
  by (simp add: replace_spaces_def rev_filter)

text \<open>Stripping and then deleting the spaces is deleting the spaces and then stripping.\<close>

lemma replace_spaces_strip: "replace_spaces (strip s) = strip (replace_spaces s)"
  unfolding strip_def
  by (simp only: replace_spaces_rev replace_spaces_dropWhile)

text \<open>Whitespace before and after a string does not change what \<open>strip\<close> returns.\<close>

lemma strip_padded:
  assumes "list_all isspace pre" "list_all isspace post"
  shows "strip (pre @ t @ post) = strip t"
proof -
  have pre: "dropWhile isspace (pre @ t @ post) = dropWhile isspace (t @ post)"
    using assms(1) by (simp add: dropWhile_append2 list_all_iff)
  have post: "dropWhile isspace (rev (dropWhile isspace (t @ post)))
                = dropWhile isspace (rev (dropWhile isspace t))"
  proof (cases "\<forall>c \<in> set t. isspace c")
    case True
    with assms(2) have "\<forall>c \<in> set (t @ post). isspace c"
      by (auto simp: list_all_iff)
    then have a: "dropWhile isspace (t @ post) = []"
      by (simp only: dropWhile_eq_Nil_conv)
    from True have b: "dropWhile isspace t = []"
      by (simp only: dropWhile_eq_Nil_conv)
    show ?thesis unfolding a b ..
  next
    case False
    then obtain c where "c \<in> set t" "\<not> isspace c" by blast
    then have "dropWhile isspace (t @ post) = dropWhile isspace t @ post"
      by (rule dropWhile_append1)
    then have a: "rev (dropWhile isspace (t @ post)) = rev post @ rev (dropWhile isspace t)"
      by simp
    have "\<And>c. c \<in> set (rev post) \<Longrightarrow> isspace c"
      using assms(2) by (simp add: list_all_iff)
    then show ?thesis
      unfolding a by (rule dropWhile_append2)
  qed
  show ?thesis
    unfolding strip_def pre post ..
qed

text \<open>
  Claim C10. The parser strips leading and trailing whitespace and deletes every space
  character before it matches the pattern. So a string \<open>s\<close> with space characters inserted
  anywhere, and then with any whitespace (tabs, line ends, spaces) put before and after it,
  parses exactly as \<open>s\<close> itself: the same events and the same result, in particular the same
  four byte values when \<open>s\<close> is well formed.
\<close>

theorem parse_four_inputs_spaced:
  assumes "spaced s t" and "list_all isspace pre" and "list_all isspace post"
  shows "parse_four_inputs (pre @ t @ post) = parse_four_inputs s"
proof -
  have "replace_spaces (strip (pre @ t @ post)) = strip (replace_spaces t)"
    by (simp only: strip_padded [OF assms(2,3)] replace_spaces_strip)
  also have "\<dots> = replace_spaces (strip s)"
    by (simp only: spaced_replace_spaces [OF assms(1)] replace_spaces_strip)
  finally show ?thesis
    by (simp add: parse_four_inputs_def)
qed

text \<open>A tab inside a group is whitespace but not a space character: it stays, and the string
  is rejected.\<close>

theorem parse_four_inputs_spaced_witness:
  "spaced ''[0101][1100][0011][1010]'' '' [01 01] [1100][0011][ 1 0 1 0 ]''
   \<and> list_all isspace [CHR 0x09, CHR 0x20, CHR 0x0D]
   \<and> list_all isspace [CHR 0x20, CHR 0x0A]
   \<and> parse_four_inputs ([CHR 0x09, CHR 0x20, CHR 0x0D] @ '' [01 01] [1100][0011][ 1 0 1 0 ]''
                          @ [CHR 0x20, CHR 0x0A])
       = ([], Inr (Some [0x5A, 0xC3, 0x3C, 0xA5]))
   \<and> parse_four_inputs (''[01'' @ [CHR 0x09] @ ''01][1100][0011][1010]'')
       = ([Print invalid_format_message], Inr None)"
proof -
  have h: "spaced ''[0101][1100][0011][1010]'' '' [01 01] [1100][0011][ 1 0 1 0 ]''"
    by (intro spaced.intros)
  have pre: "list_all isspace [CHR 0x09, CHR 0x20, CHR 0x0D]"
    and post: "list_all isspace [CHR 0x20, CHR 0x0A]"
    by (simp_all add: isspace_def)
  have p: "parse_four_inputs ''[0101][1100][0011][1010]''
             = ([], Inr (Some [0x5A, 0xC3, 0x3C, 0xA5]))"
    by code_simp
  have tab: "parse_four_inputs (''[01'' @ [CHR 0x09] @ ''01][1100][0011][1010]'')
               = ([Print invalid_format_message], Inr None)"
    by code_simp
  from parse_four_inputs_spaced [OF h pre post] p h pre post tab show ?thesis
    by (simp only: simp_thms)
qed

subsection \<open>The bytes of an accepted string\<close>

lemma nibble_cases:
  assumes "0 \<le> (k::int)" "k \<le> 15"
  shows "k \<in> {0, 1, 2, 3, 4, 5, 6, 7, 8, 9, 10, 11, 12, 13, 14, 15}"
  using assms by simp arith

lemma int_base2_bits4:
  assumes "0 \<le> n" "n \<le> 15"
  shows "int_base2 (bits4 n) = Inr n"
  using nibble_cases [OF assms]
  by (auto simp: int_base2_def bits4_def bit_char_def)

lemma byte_of_nibble:
  assumes "0 \<le> (n::int)" "n \<le> 15"
  shows "(push_bit 4 n) OR ((NOT n) AND 0x0F) = 16 * n + (15 - n)"
  using nibble_cases [OF assms]
  by auto

lemma and_255:
  assumes "0 \<le> (x::int)" "x \<le> 255"
  shows "x AND 0xFF = x"
proof -
  have "x AND mask 8 = take_bit 8 x" by (simp add: take_bit_eq_mask)
  moreover have "take_bit 8 x = x" using assms by (simp add: take_bit_int_eq_self)
  moreover have "(mask 8 :: int) = 0xFF" by (simp add: mask_eq_exp_minus_1)
  ultimately show ?thesis by simp
qed

lemma match_group_bits4:
  "match_group (CHR ''['' # bits4 n @ CHR '']'' # rest) = Some (bits4 n, rest)"
  by (simp add: bits4_def bit_char_def is_decimal_def)

text \<open>Every configuration string with nibbles in range is accepted.\<close>

lemma parse_config_string:
  assumes "0 \<le> a" "a \<le> 15" "0 \<le> b" "b \<le> 15" "0 \<le> c" "c \<le> 15" "0 \<le> d" "d \<le> 15"
  shows "parse_four_inputs (config_string a b c d)
           = ([], Inr (Some (map (\<lambda>n. 16 * n + (15 - n)) [a, b, c, d])))"
proof -
  have ns: "\<not> isspace (CHR ''['')" "\<not> isspace (CHR '']'')" "CHR '']'' \<noteq> CHR '' ''"
       "CHR ''['' \<noteq> CHR '' ''"
    by (simp_all add: isspace_def)
  have b4: "replace_spaces (bits4 n) = bits4 n" for n
    by (simp add: replace_spaces_def bits4_def bit_char_def)
  have "strip (config_string a b c d) = config_string a b c d"
    by (simp add: strip_def config_string_def ns)
  moreover have "replace_spaces (config_string a b c d) = config_string a b c d"
    using b4 by (simp add: config_string_def replace_spaces_def)
  moreover have "fullmatch (config_string a b c d) = Some [bits4 a, bits4 b, bits4 c, bits4 d]"
    by (simp add: fullmatch_def config_string_def match_group_bits4
             del: match_group.simps)
  ultimately show ?thesis
    using assms
    by (simp add: parse_four_inputs_def int_base2_bits4 byte_of_nibble)
qed

lemma int_base2_group:
  assumes "int_base2 [d1, d2, d3, d4] = Inr n"
  shows "0 \<le> n \<and> n \<le> 15 \<and> [d1, d2, d3, d4] = bits4 n"
proof -
  from assms have d: "d1 = CHR ''0'' \<or> d1 = CHR ''1''" "d2 = CHR ''0'' \<or> d2 = CHR ''1''"
     "d3 = CHR ''0'' \<or> d3 = CHR ''1''" "d4 = CHR ''0'' \<or> d4 = CHR ''1''"
    by (simp_all add: int_base2_def split: if_splits)
  from assms d
  have n: "n = foldl (\<lambda>a c. 2 * a + (if c = CHR ''1'' then 1 else 0)) 0 [d1, d2, d3, d4]"
    by (simp add: int_base2_def split: if_splits)
  from d show ?thesis unfolding n
    by (elim disjE) (simp_all add: bits4_def bit_char_def)
qed

lemma match_group_Some:
  assumes "match_group s = Some (g, rest)"
  shows "\<exists>d1 d2 d3 d4. g = [d1, d2, d3, d4] \<and> s = CHR ''['' # g @ CHR '']'' # rest"
  using assms by (cases s rule: match_group.cases) (auto split: if_splits)

lemma encode_loop_four:
  assumes "encode_loop [] [g1, g2, g3, g4] = Inr bs"
  shows "\<exists>a b c d. int_base2 g1 = Inr a \<and> int_base2 g2 = Inr b \<and> int_base2 g3 = Inr c
           \<and> int_base2 g4 = Inr d
           \<and> bs = map (\<lambda>n. (push_bit 4 n) OR ((NOT n) AND 0x0F)) [a, b, c, d]"
  using assms by (auto simp: Let_def split: sum.splits)

lemma fullmatch_Some:
  assumes "fullmatch s = Some gs"
  shows "\<exists>g1 g2 g3 g4 r1 r2 r3. gs = [g1, g2, g3, g4] \<and> match_group s = Some (g1, r1)
     \<and> match_group r1 = Some (g2, r2) \<and> match_group r2 = Some (g3, r3)
     \<and> match_group r3 = Some (g4, [])"
  using assms by (auto simp: fullmatch_def split: option.splits if_splits)

text \<open>Whatever the parser accepts is, once stripped and freed of spaces, a configuration
  string, and the parser returns the bytes of its four nibbles.\<close>

lemma parse_accepts_shape:
  assumes "parse_four_inputs s = (ev, Inr (Some bs))"
  shows "\<exists>a b c d. 0 \<le> a \<and> a \<le> 15 \<and> 0 \<le> b \<and> b \<le> 15 \<and> 0 \<le> c \<and> c \<le> 15 \<and> 0 \<le> d \<and> d \<le> 15
     \<and> replace_spaces (strip s) = config_string a b c d
     \<and> bs = map (\<lambda>n. (push_bit 4 n) OR ((NOT n) AND 0x0F)) [a, b, c, d]"
proof -
  from assms obtain gs where fm: "fullmatch (replace_spaces (strip s)) = Some gs"
    and enc: "encode_loop [] gs = Inr bs"
    by (auto simp: parse_four_inputs_def split: option.splits sum.splits)
  from fullmatch_Some [OF fm] obtain g1 g2 g3 g4 r1 r2 r3 where
    gs: "gs = [g1, g2, g3, g4]" and m1: "match_group (replace_spaces (strip s)) = Some (g1, r1)"
    and m2: "match_group r1 = Some (g2, r2)" and m3: "match_group r2 = Some (g3, r3)"
    and m4: "match_group r3 = Some (g4, [])" by blast
  from encode_loop_four [OF enc [unfolded gs]] obtain a b c d where
    i: "int_base2 g1 = Inr a" "int_base2 g2 = Inr b" "int_base2 g3 = Inr c" "int_base2 g4 = Inr d"
    and bs: "bs = map (\<lambda>n. (push_bit 4 n) OR ((NOT n) AND 0x0F)) [a, b, c, d]" by blast
  from match_group_Some [OF m1] i(1) int_base2_group [of _ _ _ _ a]
  have a: "0 \<le> a \<and> a \<le> 15 \<and> g1 = bits4 a"
    and s1: "replace_spaces (strip s) = CHR ''['' # g1 @ CHR '']'' # r1" by auto
  from match_group_Some [OF m2] i(2) int_base2_group [of _ _ _ _ b]
  have b: "0 \<le> b \<and> b \<le> 15 \<and> g2 = bits4 b"
    and s2: "r1 = CHR ''['' # g2 @ CHR '']'' # r2" by auto
  from match_group_Some [OF m3] i(3) int_base2_group [of _ _ _ _ c]
  have c: "0 \<le> c \<and> c \<le> 15 \<and> g3 = bits4 c"
    and s3: "r2 = CHR ''['' # g3 @ CHR '']'' # r3" by auto
  from match_group_Some [OF m4] i(4) int_base2_group [of _ _ _ _ d]
  have d: "0 \<le> d \<and> d \<le> 15 \<and> g4 = bits4 d"
    and s4: "r3 = CHR ''['' # g4 @ [CHR '']'']" by auto
  have "replace_spaces (strip s) = config_string a b c d"
    using a b c d by (simp add: s1 s2 s3 s4 config_string_def)
  with a b c d bs show ?thesis by blast
qed

section \<open>Properties of configure_pa\<close>

lemma writes_append: "writes (xs @ ys) = writes xs @ writes ys"
  by (simp add: writes_def)

lemma writes_Nil: "writes [] = []"
  by (simp add: writes_def)

lemma writes_Cons: "writes (e # xs) = (if is_write e then e # writes xs else writes xs)"
  by (simp add: writes_def)

lemmas writes_simps = writes_Nil writes_Cons writes_append

lemma writes_write_all:
  "writes (fst (write_all hw e v))
     = (if available e then [WriteByte (address e) (v AND 0xFF)] else [])"
  by (simp add: write_all_def writes_simps Let_def split: option.splits)

lemma writes_report_expanders: "writes (report_expanders i es) = []"
  by (induction es arbitrary: i) (simp_all add: writes_simps)

lemma make_expanders_ok:
  assumes "bus_opens hw"
  shows "make_expanders hw addrs
     = (map ReadByte addrs,
        Inr (map (\<lambda>a. \<lparr>address = a, state = 0, available = responds hw a\<rparr>) addrs))"
  using assms by (induction addrs) (simp_all add: PCF8574_init_def)

lemma writes_ReadByte: "writes (map ReadByte addrs) = []"
  by (induction addrs) (simp_all add: writes_simps)

lemma writes_write_values:
  "writes (write_values hw
             (map (\<lambda>a. \<lparr>address = a, state = 0, available = responds hw a\<rparr>) addrs) vs)
     = [WriteByte a (v AND 0xFF). (a, v) \<leftarrow> zip addrs vs, responds hw a]"
proof (induction addrs arbitrary: vs)
  case Nil
  show ?case by (simp add: writes_simps)
next
  case (Cons a addrs)
  show ?case
  proof (cases vs)
    case Nil
    then show ?thesis by (simp add: writes_simps)
  next
    case (Cons v vs')
    with Cons.IH [of vs'] show ?thesis
      by (simp add: writes_simps writes_write_all)
  qed
qed

lemma masked_writes:
  assumes "\<And>v. v \<in> set vs \<Longrightarrow> v AND 0xFF = (v::int)"
  shows "[WriteByte a (v AND 0xFF). (a, v) \<leftarrow> zip addrs vs, P a]
           = [WriteByte a v. (a, v) \<leftarrow> zip addrs vs, P a]"
  using assms
proof (induction addrs arbitrary: vs)
  case Nil
  show ?case by simp
next
  case (Cons a addrs)
  then show ?case by (cases vs) simp_all
qed

text \<open>On an accepted string the method returns normally and writes the parsed values, in
  order, to the expanders that answered the probe.\<close>

lemma configure_pa_accepted:
  assumes p: "parse_four_inputs s = (ev, Inr (Some [w, x, y, z]))" and hw: "bus_opens hw"
  shows "snd (configure_pa False hw s) = None"
    and "writes (fst (configure_pa False hw s))
       = [WriteByte a (v AND 0xFF). (a, v) \<leftarrow> zip I2C_ADDRESSES [w, x, y, z], responds hw a]"
proof -
  have ev: "ev = []"
    using p by (auto simp: parse_four_inputs_def split: option.splits sum.splits)
  have c: "configure_pa False hw s =
     (LogWarning ''Triggered PA config'' # map ReadByte I2C_ADDRESSES
        @ report_expanders 0
            (map (\<lambda>a. \<lparr>address = a, state = 0, available = responds hw a\<rparr>) I2C_ADDRESSES)
        @ [Print (''[ '' @ hex w @ '' ][ '' @ hex x @ '' ][ '' @ hex y @ '' ][ '' @ hex z
                  @ '' ]'')]
        @ write_values hw
            (map (\<lambda>a. \<lparr>address = a, state = 0, available = responds hw a\<rparr>) I2C_ADDRESSES)
            [w, x, y, z], None)"
    by (simp add: configure_pa_def make_expanders_ok [OF hw] p ev print_result_def Let_def)
  show "snd (configure_pa False hw s) = None" by (simp add: c)
  show "writes (fst (configure_pa False hw s))
       = [WriteByte a (v AND 0xFF). (a, v) \<leftarrow> zip I2C_ADDRESSES [w, x, y, z], responds hw a]"
    unfolding c fst_conv
    by (simp add: writes_simps writes_ReadByte writes_report_expanders writes_write_values
             del: write_values.simps report_expanders.simps)
qed

text \<open>Whenever the parser does not return four bytes, no byte is written to the bus, whether
  the method then returns or raises.\<close>

lemma rejected_no_writes:
  assumes "\<forall>bs. snd (parse_four_inputs s) \<noteq> Inr (Some bs)"
  shows "writes (fst (configure_pa False hw s)) = []"
proof (cases "bus_opens hw")
  case False
  then show ?thesis
    by (simp add: configure_pa_def I2C_ADDRESSES_def PCF8574_init_def writes_simps)
next
  case True
  obtain ev r where p: "parse_four_inputs s = (ev, r)" by (cases "parse_four_inputs s")
  have evw: "writes ev = []"
    using p by (auto simp: parse_four_inputs_def writes_simps split: option.splits sum.splits)
  from assms p have r: "(\<exists>e. r = Inl e) \<or> r = Inr None"
  proof (cases r)
    case (Inl e)
    then show ?thesis by simp
  next
    case (Inr b)
    with assms p show ?thesis by (cases b) simp_all
  qed
  then show ?thesis
    by (auto simp: configure_pa_def make_expanders_ok [OF True] p print_result_def Let_def
          writes_simps writes_ReadByte writes_report_expanders evw)
qed

text \<open>
  Claim C1. The claim asks that a malformed configuration string is rejected with a diagnostic,
  without a write and without an exception. The code performs no write, but an exception leaves
  \<^verbatim>\<open>configure_pa\<close> in both cases of the claim. With a bracket group missing the parser prints
  the diagnostic and returns \<^verbatim>\<open>None\<close>, and the \<^verbatim>\<open>print\<close> that precedes the guard
  \<^verbatim>\<open>if result:\<close> subscripts it: \<^verbatim>\<open>TypeError\<close>. With a digit other than 0 and 1 the pattern
  \<^verbatim>\<open>\d{4}\<close> matches, no diagnostic is printed, and \<^verbatim>\<open>int(bits, 2)\<close> raises
  \<^verbatim>\<open>ValueError\<close>.
\<close>

theorem configure_pa_malformed_raises:
  "configure_pa False example_hardware ''[0101][1100][0011]''
     = ([LogWarning ''Triggered PA config'',
         ReadByte 0x20, ReadByte 0x21, ReadByte 0x22, ReadByte 0x23,
         Print ''Extensor detectado en 0x20'', Print ''Extensor detectado en 0x21'',
         Print ''Extensor NO detectado en 0x22'', Print ''Extensor detectado en 0x23'',
         Print invalid_format_message],
        Some TypeError)
   \<and> parse_four_inputs ''[0101][1100][0011][1012]'' = ([], Inl ValueError)
   \<and> configure_pa False example_hardware ''[0101][1100][0011][1012]''
     = ([LogWarning ''Triggered PA config'',
         ReadByte 0x20, ReadByte 0x21, ReadByte 0x22, ReadByte 0x23,
         Print ''Extensor detectado en 0x20'', Print ''Extensor detectado en 0x21'',
         Print ''Extensor NO detectado en 0x22'', Print ''Extensor detectado en 0x23''],
        Some ValueError)"
  by code_simp

text \<open>
  Claim C6. For every string the parser accepts, the stripped string without spaces is a
  configuration string of four nibbles between 0 and 15, and the byte computed for each nibble
  \<open>n\<close> is \<^verbatim>\<open>(n << 4) | (~n & 0xF)\<close>, which is \<open>16 * n + (15 - n)\<close>: the nibble in the high
  half and its complement in the low half. With the bus open, \<^verbatim>\<open>configure_pa\<close> writes these
  bytes unchanged, the i-th byte to the i-th address, leaving out the expanders that did not
  answer the probe, and returns normally.
\<close>

theorem accepted_group_bytes:
  assumes "parse_four_inputs s = (ev, Inr (Some byte_values))" and "bus_opens hw"
  shows "\<exists>a b c d. 0 \<le> a \<and> a \<le> 15 \<and> 0 \<le> b \<and> b \<le> 15 \<and> 0 \<le> c \<and> c \<le> 15 \<and> 0 \<le> d \<and> d \<le> 15
     \<and> replace_spaces (strip s) = config_string a b c d
     \<and> byte_values = map (\<lambda>nibble. (push_bit 4 nibble) OR ((NOT nibble) AND 0xF)) [a, b, c, d]
     \<and> byte_values = map (\<lambda>nibble. 16 * nibble + (15 - nibble)) [a, b, c, d]
     \<and> writes (fst (configure_pa False hw s))
         = [WriteByte addr byte. (addr, byte) \<leftarrow> zip I2C_ADDRESSES byte_values, responds hw addr]
     \<and> snd (configure_pa False hw s) = None"
proof -
  from parse_accepts_shape [OF assms(1)] obtain a b c d where
    r: "0 \<le> a" "a \<le> 15" "0 \<le> b" "b \<le> 15" "0 \<le> c" "c \<le> 15" "0 \<le> d" "d \<le> 15"
    and s: "replace_spaces (strip s) = config_string a b c d"
    and bs: "byte_values = map (\<lambda>n. (push_bit 4 n) OR ((NOT n) AND 0x0F)) [a, b, c, d]"
    by blast
  have bs': "byte_values = [16 * a + (15 - a), 16 * b + (15 - b), 16 * c + (15 - c),
                            16 * d + (15 - d)]"
    using r by (simp add: bs byte_of_nibble)
  have m: "v AND 0xFF = v" if "v \<in> set byte_values" for v
  proof -
    from that r have "0 \<le> v \<and> v \<le> 255" unfolding bs' by auto
    then show ?thesis by (simp add: and_255)
  qed
  obtain w x y z where wxyz: "byte_values = [w, x, y, z]"
    using bs' by blast
  note acc = configure_pa_accepted [OF assms(1) [unfolded wxyz] assms(2)]
  have w: "writes (fst (configure_pa False hw s))
         = [WriteByte addr byte. (addr, byte) \<leftarrow> zip I2C_ADDRESSES byte_values, responds hw addr]"
    unfolding acc(2) wxyz [symmetric] by (rule masked_writes) (rule m)
  from r s bs bs' w acc(1) show ?thesis
    by (intro exI [of _ a] exI [of _ b] exI [of _ c] exI [of _ d]) simp
qed

theorem accepted_group_bytes_witness:
  "parse_four_inputs ''[0101][1100][0011][1010]'' = ([], Inr (Some [0x5A, 0xC3, 0x3C, 0xA5]))
   \<and> bus_opens example_hardware
   \<and> writes (fst (configure_pa False example_hardware ''[0101][1100][0011][1010]''))
       = [WriteByte 0x20 0x5A, WriteByte 0x21 0xC3, WriteByte 0x23 0xA5]
   \<and> snd (configure_pa False example_hardware ''[0101][1100][0011][1010]'') = None"
proof -
  have h1: "parse_four_inputs ''[0101][1100][0011][1010]''
              = ([], Inr (Some [0x5A, 0xC3, 0x3C, 0xA5]))"
    by code_simp
  have h2: "bus_opens example_hardware"
    by (simp add: example_hardware_def)
  from accepted_group_bytes [OF h1 h2]
  have "writes (fst (configure_pa False example_hardware ''[0101][1100][0011][1010]''))
          = [WriteByte addr byte. (addr, byte) \<leftarrow> zip I2C_ADDRESSES [0x5A, 0xC3, 0x3C, 0xA5],
               responds example_hardware addr]"
    and "snd (configure_pa False example_hardware ''[0101][1100][0011][1010]'') = None"
    by blast+
  with h1 h2 show ?thesis
    by (simp add: I2C_ADDRESSES_def example_hardware_def)
qed

section \<open>Properties of the application methods\<close>

subsection \<open>saveData\<close>

lemma saveData_ref_data: "ref_data (snd (saveData env d d21 src now self)) = ref_data self"
  by (simp add: saveData_def Let_def split: option.splits)

lemma saveData_calls_ref_data: "ref_data (saveData_calls env calls self) = ref_data self"
  by (induction calls arbitrary: self) (auto simp: saveData_ref_data)

text \<open>
  Claim C7. Called without a source label, \<^verbatim>\<open>saveData\<close> sets the sweep source to the name, an
  underscore and the local time formatted by \<^verbatim>\<open>strftime\<close>. The name is the name in the sweep
  properties, or \<^verbatim>\<open>nanovna\<close> when that name is empty. A label that is given is stored as it
  is.
\<close>

theorem saveData_source_label:
  "sweepSource (snd (saveData env d d21 None now self))
     = (if sweep_name self \<noteq> '''' then sweep_name self else ''nanovna'') @ ''_'' @ strftime now
   \<and> sweepSource (snd (saveData env d d21 (Some src) now self)) = src"
  by (simp add: saveData_def Let_def)

theorem saveData_source_label_witness:
  "sweepSource (snd (saveData example_collaborators (PyList 4 []) (PyList 5 []) None example_time
                       example_app))
     = ''nanovna_2026-11-04 09:38:07''"
  using saveData_source_label [of example_collaborators "PyList 4 []" "PyList 5 []" example_time
      example_app]
  by (simp add: example_app_def example_time_def strftime_def two_digits_def str_nat.simps)

subsection \<open>The minimum of a sweep\<close>

lemma min_loop_first_least:
  assumes "k < length pre" "\<forall>p \<in> set pre. key (pre ! k) \<le> key p"
    "\<forall>m < k. key (pre ! k) < key (pre ! m)"
  shows "\<exists>n < length (pre @ xs). min_loop key (pre ! k) xs = (pre @ xs) ! n
           \<and> (\<forall>p \<in> set (pre @ xs). key ((pre @ xs) ! n) \<le> key p)
           \<and> (\<forall>m < n. key ((pre @ xs) ! n) < key ((pre @ xs) ! m))"
  using assms
proof (induction xs arbitrary: pre k)
  case Nil
  then show ?case by auto
next
  case (Cons x xs)
  let ?pre = "pre @ [x]"
  show ?case
  proof (cases "key x < key (pre ! k)")
    case True
    have 1: "length pre < length ?pre" by simp
    have 2: "\<forall>p \<in> set ?pre. key (?pre ! length pre) \<le> key p"
      using True Cons.prems(2) by (auto simp: nth_append)
    have 3: "\<forall>m < length pre. key (?pre ! length pre) < key (?pre ! m)"
      using True Cons.prems(2) by (auto simp: nth_append) (meson less_le_trans nth_mem)
    from Cons.IH [OF 1 2 3] True show ?thesis by (simp add: nth_append)
  next
    case False
    have 1: "k < length ?pre" using Cons.prems(1) by simp
    have 2: "\<forall>p \<in> set ?pre. key (?pre ! k) \<le> key p"
      using False Cons.prems(1,2) by (auto simp: nth_append)
    have 3: "\<forall>m < k. key (?pre ! k) < key (?pre ! m)"
      using Cons.prems(1,3) by (auto simp: nth_append)
    from Cons.IH [OF 1 2 3] False Cons.prems(1) show ?thesis by (simp add: nth_append)
  qed
qed

lemma py_min_first_least:
  assumes "xs \<noteq> []"
  shows "\<exists>n < length xs. py_min key xs = Inr (xs ! n)
           \<and> (\<forall>p \<in> set xs. key (xs ! n) \<le> key p)
           \<and> (\<forall>m < n. key (xs ! n) < key (xs ! m))"
proof -
  from assms obtain x rest where xs: "xs = x # rest" by (cases xs) auto
  have "\<exists>n < length ([x] @ rest). min_loop key ([x] ! 0) rest = ([x] @ rest) ! n
           \<and> (\<forall>p \<in> set ([x] @ rest). key (([x] @ rest) ! n) \<le> key p)
           \<and> (\<forall>m < n. key (([x] @ rest) ! n) < key (([x] @ rest) ! m))"
    by (rule min_loop_first_least) simp_all
  then show ?thesis by (simp add: xs py_min_def)
qed

lemma first_least_sorted:
  assumes "n < length xs" "\<forall>m < n. vswr (xs ! n) < vswr (xs ! m)" "sorted (map freq xs)"
    "p \<in> set xs" "vswr p = vswr (xs ! n)"
  shows "freq (xs ! n) \<le> freq p"
proof -
  from assms(4) obtain m where m: "m < length xs" "p = xs ! m" by (auto simp: in_set_conv_nth)
  with assms(2,5) have "n \<le> m" by (metis less_irrefl not_le)
  with assms(3) m have "map freq xs ! n \<le> map freq xs ! m"
    by (simp add: sorted_iff_nth_mono del: nth_map)
  with m assms(1) show ?thesis by simp
qed

text \<open>
  Claim C2. When the buffer holds lists and the S11 list is not empty, \<^verbatim>\<open>dataUpdated\<close> returns
  and the two S11 labels are built from one point of the list, at a position \<open>n\<close>: its VSWR is
  less than or equal to the VSWR of every point, and every point before it has a strictly
  greater VSWR, so it is the first point that attains the minimum. On a list in ascending
  order of frequency no point with the same VSWR has a smaller frequency.
\<close>

theorem min_vswr_display:
  assumes "s11 (data self) = PyList i xs" "s21 (data self) = PyList j ys"
    "s11 (ref_data self) = PyList k zs" "xs \<noteq> []"
  shows "\<exists>ev self' n. dataUpdated env self = (ev, Inr self') \<and> n < length xs
     \<and> s11_min_swr_label self'
         = format_vswr env (vswr (xs ! n)) @ '' @ '' @ format_frequency env (freq (xs ! n))
     \<and> s11_min_rl_label self' = format_gain env (gain (xs ! n))
     \<and> (\<forall>p \<in> set xs. vswr (xs ! n) \<le> vswr p)
     \<and> (\<forall>m < n. vswr (xs ! n) < vswr (xs ! m))
     \<and> (sorted (map freq xs) \<longrightarrow> (\<forall>p \<in> set xs. vswr p = vswr (xs ! n) \<longrightarrow> freq (xs ! n) \<le> freq p))"
proof -
  from py_min_first_least [OF assms(4), of vswr] obtain n where n: "n < length xs"
    "py_min vswr xs = Inr (xs ! n)" "\<forall>p \<in> set xs. vswr (xs ! n) \<le> vswr p"
    "\<forall>m < n. vswr (xs ! n) < vswr (xs ! m)" by blast
  have lab: "s11_labels env xs
      = (format_vswr env (vswr (xs ! n)) @ '' @ '' @ format_frequency env (freq (xs ! n)),
         format_gain env (gain (xs ! n)))"
    using assms(4) n(2) by (simp add: s11_labels_def)
  have "\<exists>ev self'. dataUpdated env self = (ev, Inr self')
     \<and> s11_min_swr_label self' = fst (s11_labels env xs)
     \<and> s11_min_rl_label self' = snd (s11_labels env xs)"
    using assms(1-3)
    by (simp add: dataUpdated_def updateTitle_def py_len_def slice_copy_def Let_def
           split: prod.splits)
  with n first_least_sorted [OF n(1) n(4)] show ?thesis
    unfolding lab fst_conv snd_conv by blast
qed

theorem min_vswr_display_witness:
  "s11 (data example_app) = PyList 0 example_sweep \<and> s21 (data example_app) = PyList 1 []
   \<and> s11 (ref_data example_app) = PyList 2 [] \<and> example_sweep \<noteq> []
   \<and> sorted (map freq example_sweep)
   \<and> (\<exists>ev self' n. dataUpdated example_collaborators example_app = (ev, Inr self')
         \<and> n < length example_sweep
         \<and> s11_min_swr_label self'
             = format_vswr example_collaborators (vswr (example_sweep ! n)) @ '' @ ''
               @ format_frequency example_collaborators (freq (example_sweep ! n))
         \<and> (\<forall>p \<in> set example_sweep. vswr (example_sweep ! n) \<le> vswr p)
         \<and> (\<forall>m < n. vswr (example_sweep ! n) < vswr (example_sweep ! m))
         \<and> (\<forall>p \<in> set example_sweep. vswr p = vswr (example_sweep ! n)
               \<longrightarrow> freq (example_sweep ! n) \<le> freq p))
   \<and> s11_labels example_collaborators example_sweep = (''low @ 2000000Hz'', ''loss'')"
proof -
  have h: "s11 (data example_app) = PyList 0 example_sweep" "s21 (data example_app) = PyList 1 []"
    "s11 (ref_data example_app) = PyList 2 []" "example_sweep \<noteq> []"
    by (simp_all add: example_app_def example_sweep_def)
  have s: "sorted (map freq example_sweep)" by (simp add: example_sweep_def)
  have l: "s11_labels example_collaborators example_sweep = (''low @ 2000000Hz'', ''loss'')"
    by (simp add: s11_labels_def py_min_def example_sweep_def example_collaborators_def
          str_nat.simps)
  from min_vswr_display [OF h, of example_collaborators] s h l show ?thesis by blast
qed

subsection \<open>setReference and resetReference\<close>

lemma setReference_falsy:
  assumes f: "\<not> truthy a" and d: "s11 (data self) = PyList i xs" "s21 (data self) = PyList j ys"
  shows "\<exists>ev self'. setReference a b src self = (ev, Inr self')
     \<and> ref_data self' = \<lparr>s11 = PyList (next_id self) xs, s21 = PyList (Suc (next_id self)) ys\<rparr>
     \<and> data self' = data self"
  using f d
  by (simp add: setReference_def updateTitle_def py_len_def slice_copy_def Let_def
           split: option.splits)

lemma not_truthy_iff: "\<not> truthy v \<longleftrightarrow> v = PyNone \<or> (\<exists>k. v = PyList k [])"
  by (cases v) (simp_all add: truthy_def)

lemma setReference_falsy_eq:
  assumes "\<not> truthy a"
  shows "setReference a b src self = setReference PyNone PyNone src self"
  using assms by (simp add: setReference_def truthy_def)

lemma setReference_truthy:
  assumes "truthy t" "s11 (data self) = PyList i xs"
  shows "\<exists>ev self'. setReference t b src self = (ev, Inr self')
     \<and> ref_data self' = \<lparr>s11 = t, s21 = b\<rparr> \<and> next_id self' = next_id self"
proof -
  from assms(1) obtain k ts where t: "t = PyList k ts" by (cases t) (simp_all add: truthy_def)
  show ?thesis
    using assms
    by (simp add: setReference_def updateTitle_def py_len_def Let_def t split: option.splits)
qed

text \<open>
  Claim C4. Called without data while the buffer holds two lists, \<^verbatim>\<open>setReference\<close> returns and
  the reference holds two new list objects with the elements the buffer has at that moment;
  they are not the list objects of the buffer. Whatever calls of \<^verbatim>\<open>saveData\<close> follow, the
  reference stays as it was stored.
\<close>

theorem setReference_snapshot:
  assumes "s11 (data self) = PyList i xs" "s21 (data self) = PyList j ys"
    "i < next_id self" "j < next_id self"
  shows "\<exists>ev self'. setReference PyNone PyNone src self = (ev, Inr self')
     \<and> s11 (ref_data self') = PyList (next_id self) xs
     \<and> s21 (ref_data self') = PyList (Suc (next_id self)) ys
     \<and> s11 (ref_data self') \<noteq> s11 (data self) \<and> s21 (ref_data self') \<noteq> s21 (data self)
     \<and> (\<forall>calls. ref_data (saveData_calls env calls self') = ref_data self')"
proof -
  have "\<not> truthy PyNone" by (simp add: truthy_def)
  from setReference_falsy [OF this assms(1,2), of PyNone src] obtain ev self' where
    r: "setReference PyNone PyNone src self = (ev, Inr self')"
       "ref_data self' = \<lparr>s11 = PyList (next_id self) xs, s21 = PyList (Suc (next_id self)) ys\<rparr>"
    by blast
  from r(2) assms show ?thesis
    by (simp add: r(1) saveData_calls_ref_data)
qed

theorem setReference_snapshot_witness:
  "s11 (data example_app) = PyList 0 example_sweep \<and> s21 (data example_app) = PyList 1 []
   \<and> 0 < next_id example_app \<and> 1 < next_id example_app
   \<and> (\<exists>ev self'. setReference PyNone PyNone None example_app = (ev, Inr self')
         \<and> s11 (ref_data self') = PyList 4 example_sweep
         \<and> s21 (ref_data self') = PyList 5 []
         \<and> ref_data (saveData_calls example_collaborators
                        [(PyList 6 [], PyList 7 [], None, example_time)] self')
             = ref_data self')"
proof -
  have h: "s11 (data example_app) = PyList 0 example_sweep" "s21 (data example_app) = PyList 1 []"
    "0 < next_id example_app" "1 < next_id example_app"
    by (simp_all add: example_app_def)
  have n: "next_id example_app = 4" by (simp add: example_app_def)
  from setReference_snapshot [OF h, of None example_collaborators] obtain ev self' where
    r: "setReference PyNone PyNone None example_app = (ev, Inr self')"
       "s11 (ref_data self') = PyList (next_id example_app) example_sweep"
       "s21 (ref_data self') = PyList (Suc (next_id example_app)) []"
       "\<forall>calls. ref_data (saveData_calls example_collaborators calls self') = ref_data self'"
    by blast
  have "Suc (next_id example_app) = 5" by (simp add: n)
  with r n h show ?thesis by (auto simp del: saveData_calls.simps)
qed

text \<open>
  Claim C9. With an S11 argument that is \<^verbatim>\<open>None\<close> or an empty list, \<^verbatim>\<open>setReference\<close> does what
  it does with no arguments at all, whatever the S21 argument is: both references are new
  copies of the buffer's lists, and no list object that existed before the call, in particular
  no empty list that was passed, is stored as the S11 reference. With an S11 argument that is
  a list with elements and \<^verbatim>\<open>None\<close> for S21, the argument itself is stored and the S21
  reference is \<^verbatim>\<open>None\<close>.
\<close>

theorem setReference_falsy_s11:
  assumes "\<not> truthy s11_arg" "s11 (data self) = PyList i xs" "s21 (data self) = PyList j ys"
  shows "setReference s11_arg s21_arg src self = setReference PyNone PyNone src self
     \<and> (\<exists>ev self'. setReference s11_arg s21_arg src self = (ev, Inr self')
           \<and> ref_data self'
               = \<lparr>s11 = PyList (next_id self) xs, s21 = PyList (Suc (next_id self)) ys\<rparr>
           \<and> (\<forall>k < next_id self. s11 (ref_data self') \<noteq> PyList k []))
     \<and> (\<forall>t. truthy t \<longrightarrow>
           (\<exists>ev self'. setReference t PyNone src self = (ev, Inr self')
              \<and> ref_data self' = \<lparr>s11 = t, s21 = PyNone\<rparr>))"
proof -
  from setReference_falsy [OF assms, of s21_arg src] obtain ev self' where
    r: "setReference s11_arg s21_arg src self = (ev, Inr self')"
       "ref_data self' = \<lparr>s11 = PyList (next_id self) xs, s21 = PyList (Suc (next_id self)) ys\<rparr>"
    by blast
  have "\<forall>k < next_id self. s11 (ref_data self') \<noteq> PyList k []"
    by (simp add: r(2))
  moreover have "\<exists>ev self'. setReference t PyNone src self = (ev, Inr self')
              \<and> ref_data self' = \<lparr>s11 = t, s21 = PyNone\<rparr>" if "truthy t" for t
    using setReference_truthy [OF that assms(2), of PyNone src] by blast
  ultimately show ?thesis
    using r setReference_falsy_eq [OF assms(1)] by blast
qed

theorem setReference_falsy_s11_witness:
  "\<not> truthy (PyList 9 []) \<and> s11 (data example_app) = PyList 0 example_sweep
   \<and> s21 (data example_app) = PyList 1 []
   \<and> setReference (PyList 9 []) (PyList 1 []) None example_app
       = setReference PyNone PyNone None example_app
   \<and> truthy (PyList 0 example_sweep)
   \<and> (\<exists>ev self'. setReference (PyList 0 example_sweep) PyNone None example_app = (ev, Inr self')
         \<and> ref_data self' = \<lparr>s11 = PyList 0 example_sweep, s21 = PyNone\<rparr>)"
proof -
  have h: "\<not> truthy (PyList 9 [])" "s11 (data example_app) = PyList 0 example_sweep"
    "s21 (data example_app) = PyList 1 []"
    by (simp_all add: example_app_def truthy_def)
  have t: "truthy (PyList 0 example_sweep)" by (simp add: truthy_def example_sweep_def)
  from setReference_falsy_s11 [OF h, of "PyList 1 []" None] h t show ?thesis by blast
qed

text \<open>
  Claim C5. When the S11 buffer is a list, \<^verbatim>\<open>resetReference\<close> returns, and a second call right
  after it returns too, with the same events. After each call the reference is a pair of new
  empty lists, the reference source is empty and the reset button is disabled; the window
  title is the same after both, and the second call changes nothing but the identities of the
  two empty lists.
\<close>

theorem resetReference_twice:
  assumes "s11 (data self) = PyList i xs"
  shows "\<exists>ev self1 self2. resetReference self = (ev, Inr self1)
     \<and> resetReference self1 = (ev, Inr self2)
     \<and> ref_data self1 = \<lparr>s11 = PyList (next_id self) [], s21 = PyList (next_id self + 1) []\<rparr>
     \<and> ref_data self2 = \<lparr>s11 = PyList (next_id self + 2) [], s21 = PyList (next_id self + 3) []\<rparr>
     \<and> referenceSource self1 = '''' \<and> referenceSource self2 = ''''
     \<and> windowTitle self2 = windowTitle self1
     \<and> btnResetReference_disabled self1 \<and> btnResetReference_disabled self2
     \<and> self2 = self1\<lparr>ref_data := ref_data self2, next_id := next_id self2\<rparr>"
  using assms
  by (simp add: resetReference_def new_Touchstone_def updateTitle_def py_len_def Let_def)

theorem resetReference_twice_witness:
  "s11 (data example_app) = PyList 0 example_sweep
   \<and> (\<exists>ev self1 self2. resetReference example_app = (ev, Inr self1)
         \<and> resetReference self1 = (ev, Inr self2)
         \<and> referenceSource self2 = '''' \<and> windowTitle self2 = windowTitle self1
         \<and> btnResetReference_disabled self2
         \<and> self2 = self1\<lparr>ref_data := ref_data self2, next_id := next_id self2\<rparr>)"
proof -
  have h: "s11 (data example_app) = PyList 0 example_sweep" by (simp add: example_app_def)
  from resetReference_twice [OF h] h show ?thesis by blast
qed

subsection \<open>The scope of the data lock\<close>

lemma under_lock_no_Acquire: "Acquire \<notin> set es \<Longrightarrow> under_lock False es = []"
proof (induction es)
  case Nil
  show ?case by simp
next
  case (Cons e es)
  then show ?case by (cases e) simp_all
qed

lemma under_lock_held_prefix:
  "Acquire \<notin> set xs \<Longrightarrow> Release \<notin> set xs \<Longrightarrow> under_lock True (xs @ ys) = xs @ under_lock True ys"
proof (induction xs)
  case Nil
  show ?case by simp
next
  case (Cons e xs)
  then show ?case by (cases e) simp_all
qed

lemma refresh_markers_no_Acquire:
  "refresh_markers env a b ids objs = (ev, objs') \<Longrightarrow> Acquire \<notin> set ev"
  by (induction ids arbitrary: objs ev objs') (auto simp: Let_def split: prod.splits)

lemma updateTitle_no_Acquire: "updateTitle self = (ev, r) \<Longrightarrow> Acquire \<notin> set ev"
  by (auto simp: updateTitle_def Let_def split: sum.splits if_splits)

lemma second_operand_no_Acquire:
  "second_operand env m1 self = (ev, r) \<Longrightarrow> Acquire \<notin> set ev"
  by (auto simp: second_operand_def Let_def split: if_splits list.splits)

lemma dataUpdated_trace:
  "\<exists>rest. fst (dataUpdated env self) = Acquire # Release # rest \<and> Acquire \<notin> set rest"
  by (auto simp: dataUpdated_def Let_def split: sum.splits prod.splits
           dest: refresh_markers_no_Acquire updateTitle_no_Acquire)

lemma setReference_trace:
  "under_lock False (fst (setReference a b src self)) = []"
proof (cases "truthy a")
  case True
  then have "Acquire \<notin> set (fst (setReference a b src self))"
    by (auto simp: setReference_def Let_def split: sum.splits prod.splits
             dest: updateTitle_no_Acquire)
  then show ?thesis by (rule under_lock_no_Acquire)
next
  case False
  then have "\<exists>rest. fst (setReference a b src self) = Acquire # Release # rest
                 \<and> Acquire \<notin> set rest"
    by (auto simp: setReference_def Let_def split: sum.splits prod.splits
             dest: updateTitle_no_Acquire)
  then show ?thesis by (auto simp: under_lock_no_Acquire)
qed

lemma resetReference_trace: "Acquire \<notin> set (fst (resetReference self))"
  by (auto simp: resetReference_def Let_def split: sum.splits prod.splits
           dest: updateTitle_no_Acquire)

lemma markerUpdated_trace:
  "\<exists>rest. fst (markerUpdated env i self)
            = Acquire # ([MarkerFindLocation (LiveMarker i) (s11 (data self)),
                          MarkerResetLabels (LiveMarker i),
                          MarkerUpdateLabels (LiveMarker i) (s11 (data self)) (s21 (data self))]
                         @ map ChartUpdate (subscribing_charts self)) @ Release # rest
          \<and> Acquire \<notin> set rest"
  by (auto simp: markerUpdated_def update_charts_def Let_def
           split: sum.splits prod.splits list.splits option.splits
           dest: second_operand_no_Acquire)

text \<open>
  Claim C8, as stated, fails: \<^verbatim>\<open>markerUpdated\<close> calls \<^verbatim>\<open>findLocation\<close>, \<^verbatim>\<open>resetLabels\<close> and
  \<^verbatim>\<open>updateLabels\<close> on the marker and \<^verbatim>\<open>update\<close> on every subscribing chart inside its
  \<^verbatim>\<open>with self.dataLock\<close> block.
\<close>

theorem markerUpdated_updates_under_lock:
  "under_lock False (fst (markerUpdated example_collaborators 0 example_app))
     = [MarkerFindLocation (LiveMarker 0) (PyList 0 example_sweep),
        MarkerResetLabels (LiveMarker 0),
        MarkerUpdateLabels (LiveMarker 0) (PyList 0 example_sweep) (PyList 1 []),
        ChartUpdate 0, ChartUpdate 1, ChartUpdate 2, ChartUpdate 3, ChartUpdate 4, ChartUpdate 5]"
  by (simp add: markerUpdated_def example_app_def second_operand_def update_charts_def Let_def)

text \<open>
  Claim C8, amended. In \<^verbatim>\<open>saveData\<close>, \<^verbatim>\<open>dataUpdated\<close>, \<^verbatim>\<open>setReference\<close> and
  \<^verbatim>\<open>resetReference\<close> no call to a chart, a marker or a widget happens while the data lock is
  held: the lock covers only the replacement or the copy of the buffered lists. In
  \<^verbatim>\<open>markerUpdated\<close> exactly the three calls on the updated marker and the \<^verbatim>\<open>update\<close> of every
  subscribing chart happen under the lock, whichever marker was updated.
\<close>

theorem lock_scope:
  "under_lock False (fst (saveData env a b src now self)) = []
   \<and> under_lock False (fst (dataUpdated env self)) = []
   \<and> under_lock False (fst (setReference a b src' self)) = []
   \<and> under_lock False (fst (resetReference self)) = []
   \<and> under_lock False (fst (markerUpdated env i self))
       = [MarkerFindLocation (LiveMarker i) (s11 (data self)),
          MarkerResetLabels (LiveMarker i),
          MarkerUpdateLabels (LiveMarker i) (s11 (data self)) (s21 (data self))]
         @ map ChartUpdate (subscribing_charts self)"
proof -
  have 1: "under_lock False (fst (saveData env a b src now self)) = []"
    by (simp add: saveData_def Let_def)
  from dataUpdated_trace [of env self]
  have 2: "under_lock False (fst (dataUpdated env self)) = []"
    by (auto simp: under_lock_no_Acquire)
  have 4: "under_lock False (fst (resetReference self)) = []"
    by (rule under_lock_no_Acquire) (rule resetReference_trace)
  have 5: "under_lock False (fst (markerUpdated env i self))
          = [MarkerFindLocation (LiveMarker i) (s11 (data self)),
             MarkerResetLabels (LiveMarker i),
             MarkerUpdateLabels (LiveMarker i) (s11 (data self)) (s21 (data self))]
            @ map ChartUpdate (subscribing_charts self)"
  proof -
    let ?inner = "[MarkerFindLocation (LiveMarker i) (s11 (data self)),
             MarkerResetLabels (LiveMarker i),
             MarkerUpdateLabels (LiveMarker i) (s11 (data self)) (s21 (data self))]
            @ map ChartUpdate (subscribing_charts self)"
    from markerUpdated_trace [of env i self] obtain rest where
      t: "fst (markerUpdated env i self) = Acquire # ?inner @ Release # rest"
      and r: "Acquire \<notin> set rest" by blast
    have "Acquire \<notin> set ?inner" "Release \<notin> set ?inner" by auto
    then have "under_lock True (?inner @ Release # rest) = ?inner @ under_lock True (Release # rest)"
      by (rule under_lock_held_prefix)
    with r show ?thesis unfolding t by (simp add: under_lock_no_Acquire)
  qed
  from 1 2 setReference_trace 4 5 show ?thesis by blast
qed

theorem lock_scope_witness:
  "under_lock False (fst (dataUpdated example_collaborators example_app)) = []
   \<and> under_lock False (fst (markerUpdated example_collaborators 0 example_app))
     = [MarkerFindLocation (LiveMarker 0) (s11 (data example_app)),
        MarkerResetLabels (LiveMarker 0),
        MarkerUpdateLabels (LiveMarker 0) (s11 (data example_app)) (s21 (data example_app))]
       @ map ChartUpdate (subscribing_charts example_app)
   \<and> under_lock False (fst (markerUpdated example_collaborators 7 example_no_marker))
     = [MarkerFindLocation (LiveMarker 7) (s11 (data example_no_marker)),
        MarkerResetLabels (LiveMarker 7),
        MarkerUpdateLabels (LiveMarker 7) (s11 (data example_no_marker))
          (s21 (data example_no_marker))]
       @ map ChartUpdate (subscribing_charts example_no_marker)"
  using lock_scope [of example_collaborators PyNone PyNone None example_time example_app None 0]
    lock_scope [of example_collaborators PyNone PyNone None example_time example_no_marker None 7]
  by blast

subsection \<open>The delta marker\<close>

lemma markerUpdated_no_marker:
  assumes "\<not> delta_marker_layout_hidden self" "markers self = []"
  shows "snd (markerUpdated env marker self) = Inl IndexError"
  using assms by (simp add: markerUpdated_def Let_def)

lemma markerUpdated_no_operand:
  assumes "\<not> delta_marker_layout_hidden self" "markers self = i1 # rest"
    and "marker_ref self \<and> \<not> Touchstone_bool (ref_data self)
         \<or> \<not> marker_ref self \<and> Marker_count self < 2"
  shows "\<exists>ev. markerUpdated env marker self
           = (ev @ [LogError ''No data for delta, missing marker or reference''],
              Inr (self\<lparr>marker_objects := (marker_objects self)
                     (marker := update_marker env (marker_objects self marker) (data self))\<rparr>))"
  using assms by (auto simp: markerUpdated_def second_operand_def Let_def)

lemma markerUpdated_one_marker:
  assumes "\<not> delta_marker_layout_hidden self" "markers self = [i1]"
    and "\<not> marker_ref self" "2 \<le> Marker_count self"
  shows "snd (markerUpdated env marker self) = Inl IndexError"
  using assms by (simp add: markerUpdated_def second_operand_def Let_def)

lemma markerUpdated_two_operands:
  assumes "\<not> delta_marker_layout_hidden self" "markers self = i1 # rest"
    and "marker_ref self \<and> Touchstone_bool (ref_data self)
         \<or> \<not> marker_ref self \<and> 2 \<le> Marker_count self \<and> rest \<noteq> []"
    and "objs = (marker_objects self)
                  (marker := update_marker env (marker_objects self marker) (data self))"
    and "m2 = (if marker_ref self then reference_marker env (objs i1) (ref_data self)
               else objs (hd rest))"
  shows "\<exists>ev id2 self'. markerUpdated env marker self
            = (ev @ [DeltaSetMarkers (LiveMarker i1) id2, DeltaResetLabels, DeltaUpdateLabels],
               Inr self')
       \<and> marker_a (delta_marker self') = Some (objs i1)
       \<and> marker_b (delta_marker self') = Some m2
       \<and> (delta_IndexError env (objs i1) m2 = None \<longrightarrow>
            delta_labels (delta_marker self')
              = map2 (\<lambda>y x. y - x) (labels m2) (labels (objs i1)))"
proof (cases "marker_ref self")
  case True
  with assms show ?thesis
    by (auto simp: markerUpdated_def second_operand_def delta_resetLabels_def
          delta_updateLabels_def Let_def split: option.splits)
next
  case False
  with assms(3) obtain i2 rest' where "rest = i2 # rest'" by (cases rest) auto
  with False assms show ?thesis
    by (auto simp: markerUpdated_def second_operand_def delta_resetLabels_def
          delta_updateLabels_def Let_def split: option.splits)
qed

text \<open>
  Claim C3, as stated, fails in two ways. With the delta marker shown and no marker in
  \<^verbatim>\<open>self.markers\<close>, which is fewer than two markers, \<^verbatim>\<open>self.markers[0]\<close> raises \<^verbatim>\<open>IndexError\<close>
  out of the method. And when no second operand is found the method makes no call on the
  delta marker, so a display is not blanked: with two markers a first call displays the
  difference of their values; after the second marker is removed, a second call on the state
  the first call returned logs the error and the delta marker still displays that difference.
\<close>

theorem delta_marker_not_blanked:
  "\<not> delta_marker_layout_hidden example_no_marker \<and> \<not> marker_ref example_no_marker
   \<and> markers example_no_marker = [] \<and> Marker_count example_no_marker = 0
   \<and> snd (markerUpdated example_collaborators 0 example_no_marker) = Inl IndexError
   \<and> delta_labels (delta_marker example_app2) = []
   \<and> (case snd (markerUpdated example_collaborators 0 example_app2) of
        Inl e \<Rightarrow> False
      | Inr self1 \<Rightarrow>
          delta_labels (delta_marker self1) = [2000000, 0]
          \<and> (case markerUpdated example_collaborators 0 (self1\<lparr>markers := [0], Marker_count := 1\<rparr>) of
                (ev, Inl e) \<Rightarrow> False
              | (ev, Inr self2) \<Rightarrow>
                  last ev = LogError ''No data for delta, missing marker or reference''
                  \<and> delta_labels (delta_marker self2) = [2000000, 0]))"
  by (simp add: markerUpdated_def second_operand_def update_charts_def Let_def
        update_marker_def resetLabels_def delta_resetLabels_def delta_updateLabels_def
        example_no_marker_def example_app2_def example_app_def example_collaborators_def
        example_sweep_def)

text \<open>
  Claim C3, amended. Let the delta marker be shown. With no marker in \<^verbatim>\<open>self.markers\<close> the
  method raises \<^verbatim>\<open>IndexError\<close>. With a marker there: if reference mode is on and no reference
  data exists, or reference mode is off and \<^verbatim>\<open>Marker.count()\<close> is below two, the method logs
  the error, returns normally and changes nothing but the updated marker, so the delta marker
  displays what it displayed before (nothing, if it displayed nothing). If reference mode is
  on and reference data exists, or reference mode is off and there are two markers, the delta
  marker is given the first marker and the second operand (the marker built from the reference
  at the first marker's location, or the second marker), and when \<^verbatim>\<open>DeltaMarker.updateLabels\<close>
  returns without the \<^verbatim>\<open>IndexError\<close> that the method suppresses, each value it displays is the
  second operand's value minus the first marker's. If \<^verbatim>\<open>Marker.count()\<close> is two or more and
  \<^verbatim>\<open>self.markers\<close> has one marker, \<^verbatim>\<open>self.markers[1]\<close> raises \<^verbatim>\<open>IndexError\<close>.
\<close>

theorem delta_marker_resolution:
  assumes "\<not> delta_marker_layout_hidden self"
  shows
    "(markers self = [] \<longrightarrow> snd (markerUpdated env marker self) = Inl IndexError)
     \<and> (\<forall>i1 rest objs m2.
          markers self = i1 # rest
          \<and> objs = (marker_objects self)
                     (marker := update_marker env (marker_objects self marker) (data self))
          \<and> m2 = (if marker_ref self then reference_marker env (objs i1) (ref_data self)
                   else objs (hd rest)) \<longrightarrow>
          (marker_ref self \<and> \<not> Touchstone_bool (ref_data self)
             \<or> \<not> marker_ref self \<and> Marker_count self < 2 \<longrightarrow>
           (\<exists>ev. markerUpdated env marker self
                    = (ev @ [LogError ''No data for delta, missing marker or reference''],
                       Inr (self\<lparr>marker_objects := objs\<rparr>))))
          \<and> (marker_ref self \<and> Touchstone_bool (ref_data self)
               \<or> \<not> marker_ref self \<and> 2 \<le> Marker_count self \<and> rest \<noteq> [] \<longrightarrow>
             (\<exists>ev id2 self'. markerUpdated env marker self
                 = (ev @ [DeltaSetMarkers (LiveMarker i1) id2, DeltaResetLabels,
                          DeltaUpdateLabels], Inr self')
               \<and> marker_a (delta_marker self') = Some (objs i1)
               \<and> marker_b (delta_marker self') = Some m2
               \<and> (delta_IndexError env (objs i1) m2 = None \<longrightarrow>
                    delta_labels (delta_marker self')
                      = map2 (\<lambda>y x. y - x) (labels m2) (labels (objs i1)))))
          \<and> (\<not> marker_ref self \<and> 2 \<le> Marker_count self \<and> rest = [] \<longrightarrow>
               snd (markerUpdated env marker self) = Inl IndexError))"
proof (intro conjI allI impI)
  assume "markers self = []"
  with assms show "snd (markerUpdated env marker self) = Inl IndexError"
    by (rule markerUpdated_no_marker)
next
  fix i1 rest objs m2
  assume h: "markers self = i1 # rest
          \<and> objs = (marker_objects self)
                     (marker := update_marker env (marker_objects self marker) (data self))
          \<and> m2 = (if marker_ref self then reference_marker env (objs i1) (ref_data self)
                   else objs (hd rest))"
  from h have m: "markers self = i1 # rest"
    and o: "objs = (marker_objects self)
                     (marker := update_marker env (marker_objects self marker) (data self))"
    and mm: "m2 = (if marker_ref self then reference_marker env (objs i1) (ref_data self)
                   else objs (hd rest))"
    by simp_all
  {
    assume "marker_ref self \<and> \<not> Touchstone_bool (ref_data self)
             \<or> \<not> marker_ref self \<and> Marker_count self < 2"
    from markerUpdated_no_operand [OF assms m this, where env = env and marker = marker] o
    show "\<exists>ev. markerUpdated env marker self
                    = (ev @ [LogError ''No data for delta, missing marker or reference''],
                       Inr (self\<lparr>marker_objects := objs\<rparr>))"
      by simp
  next
    assume "marker_ref self \<and> Touchstone_bool (ref_data self)
               \<or> \<not> marker_ref self \<and> 2 \<le> Marker_count self \<and> rest \<noteq> []"
    from markerUpdated_two_operands [OF assms m this o mm]
    show "\<exists>ev id2 self'. markerUpdated env marker self
                 = (ev @ [DeltaSetMarkers (LiveMarker i1) id2, DeltaResetLabels,
                          DeltaUpdateLabels], Inr self')
               \<and> marker_a (delta_marker self') = Some (objs i1)
               \<and> marker_b (delta_marker self') = Some m2
               \<and> (delta_IndexError env (objs i1) m2 = None \<longrightarrow>
                    delta_labels (delta_marker self')
                      = map2 (\<lambda>y x. y - x) (labels m2) (labels (objs i1)))"
      by simp
  next
    assume c: "\<not> marker_ref self \<and> 2 \<le> Marker_count self \<and> rest = []"
    with m have "markers self = [i1]" by simp
    from markerUpdated_one_marker [OF assms this, where env = env and marker = marker] c
    show "snd (markerUpdated env marker self) = Inl IndexError"
      by simp
  }
qed

theorem delta_marker_resolution_witness:
  "\<not> delta_marker_layout_hidden example_no_marker \<and> markers example_no_marker = []
   \<and> snd (markerUpdated example_collaborators 0 example_no_marker) = Inl IndexError
   \<and> \<not> delta_marker_layout_hidden example_app \<and> \<not> marker_ref example_app
   \<and> Marker_count example_app < 2
   \<and> (\<exists>ev. markerUpdated example_collaborators 0 example_app
              = (ev @ [LogError ''No data for delta, missing marker or reference''],
                 Inr (example_app\<lparr>marker_objects := (marker_objects example_app)
                        (0 := \<lparr>name = ''Marker'', location = 1, labels = [2000000, 1.05]\<rparr>)\<rparr>)))
   \<and> \<not> delta_marker_layout_hidden example_ref_mode \<and> marker_ref example_ref_mode
   \<and> \<not> Touchstone_bool (ref_data example_ref_mode)
   \<and> (\<exists>ev. markerUpdated example_collaborators 0 example_ref_mode
              = (ev @ [LogError ''No data for delta, missing marker or reference''],
                 Inr (example_ref_mode\<lparr>marker_objects := (marker_objects example_ref_mode)
                        (0 := \<lparr>name = ''Marker'', location = 1, labels = [2000000, 1.05]\<rparr>)\<rparr>)))
   \<and> \<not> delta_marker_layout_hidden example_app2 \<and> \<not> marker_ref example_app2
   \<and> 2 \<le> Marker_count example_app2 \<and> markers example_app2 = [0, 1]
   \<and> (\<exists>ev id2 self'. markerUpdated example_collaborators 0 example_app2
          = (ev @ [DeltaSetMarkers (LiveMarker 0) id2, DeltaResetLabels, DeltaUpdateLabels],
             Inr self')
         \<and> delta_labels (delta_marker self') = [2000000, 0])
   \<and> \<not> delta_marker_layout_hidden example_with_reference \<and> marker_ref example_with_reference
   \<and> Touchstone_bool (ref_data example_with_reference)
   \<and> (\<exists>ev id2 self'. markerUpdated example_collaborators 0 example_with_reference
          = (ev @ [DeltaSetMarkers (LiveMarker 0) id2, DeltaResetLabels, DeltaUpdateLabels],
             Inr self')
         \<and> delta_labels (delta_marker self') = [0, 0.25])"
proof -
  let ?env = example_collaborators
  let ?m = "\<lparr>name = ''Marker'', location = 1, labels = [2000000, 1.05]\<rparr>"
  have upd: "update_marker ?env \<lparr>name = ''Marker'', location = 0, labels = []\<rparr>
               \<lparr>s11 = PyList 0 example_sweep, s21 = b\<rparr> = ?m" for b
    by (simp add: update_marker_def resetLabels_def example_collaborators_def example_sweep_def)
  \<comment> \<open>no marker\<close>
  have h0: "\<not> delta_marker_layout_hidden example_no_marker"
    and m0: "markers example_no_marker = []"
    by (simp_all add: example_no_marker_def example_app_def)
  from delta_marker_resolution [OF h0, of ?env 0] m0
  have w0: "snd (markerUpdated ?env 0 example_no_marker) = Inl IndexError"
    by blast
  \<comment> \<open>one marker, reference mode off\<close>
  have h1: "\<not> delta_marker_layout_hidden example_app" and c1: "\<not> marker_ref example_app"
    "Marker_count example_app < 2" and m1: "markers example_app = 0 # []"
    by (simp_all add: example_app_def)
  define objs1 where "objs1 = (marker_objects example_app)
      (0 := update_marker ?env (marker_objects example_app 0) (data example_app))"
  define r1 where "r1 = (if marker_ref example_app
      then reference_marker ?env (objs1 0) (ref_data example_app) else objs1 (hd []))"
  from delta_marker_resolution [OF h1, of ?env 0] m1 objs1_def r1_def c1
  have "\<exists>ev. markerUpdated ?env 0 example_app
              = (ev @ [LogError ''No data for delta, missing marker or reference''],
                 Inr (example_app\<lparr>marker_objects := objs1\<rparr>))"
    by blast
  moreover have "objs1 = (marker_objects example_app)(0 := ?m)"
    unfolding objs1_def by (simp add: example_app_def upd)
  ultimately have w1: "\<exists>ev. markerUpdated ?env 0 example_app
              = (ev @ [LogError ''No data for delta, missing marker or reference''],
                 Inr (example_app\<lparr>marker_objects := (marker_objects example_app)(0 := ?m)\<rparr>))"
    by simp
  \<comment> \<open>one marker, reference mode on, no reference data\<close>
  have h2: "\<not> delta_marker_layout_hidden example_ref_mode"
    and c2: "marker_ref example_ref_mode" "\<not> Touchstone_bool (ref_data example_ref_mode)"
    and m2: "markers example_ref_mode = 0 # []"
    by (simp_all add: example_ref_mode_def example_app_def Touchstone_bool_def truthy_def)
  define objs2 where "objs2 = (marker_objects example_ref_mode)
      (0 := update_marker ?env (marker_objects example_ref_mode 0) (data example_ref_mode))"
  define r2 where "r2 = (if marker_ref example_ref_mode
      then reference_marker ?env (objs2 0) (ref_data example_ref_mode) else objs2 (hd []))"
  from delta_marker_resolution [OF h2, of ?env 0] m2 objs2_def r2_def c2
  have "\<exists>ev. markerUpdated ?env 0 example_ref_mode
              = (ev @ [LogError ''No data for delta, missing marker or reference''],
                 Inr (example_ref_mode\<lparr>marker_objects := objs2\<rparr>))"
    by blast
  moreover have "objs2 = (marker_objects example_ref_mode)(0 := ?m)"
    unfolding objs2_def by (simp add: example_ref_mode_def example_app_def upd)
  ultimately have w2: "\<exists>ev. markerUpdated ?env 0 example_ref_mode
              = (ev @ [LogError ''No data for delta, missing marker or reference''],
                 Inr (example_ref_mode\<lparr>marker_objects :=
                        (marker_objects example_ref_mode)(0 := ?m)\<rparr>))"
    by simp
  \<comment> \<open>two markers\<close>
  have h3: "\<not> delta_marker_layout_hidden example_app2"
    and c3: "\<not> marker_ref example_app2" "2 \<le> Marker_count example_app2"
    and m3: "markers example_app2 = 0 # [1]"
    by (simp_all add: example_app2_def example_app_def)
  define objs3 where "objs3 = (marker_objects example_app2)
      (0 := update_marker ?env (marker_objects example_app2 0) (data example_app2))"
  define r3 where "r3 = (if marker_ref example_app2
      then reference_marker ?env (objs3 0) (ref_data example_app2) else objs3 (hd [1]))"
  have o3: "objs3 0 = ?m"
    unfolding objs3_def by (simp add: example_app2_def example_app_def upd)
  have r3: "r3 = \<lparr>name = ''Marker'', location = 3, labels = [4000000, 1.05]\<rparr>"
    unfolding r3_def objs3_def by (simp add: example_app2_def example_app_def)
  have e3: "delta_IndexError ?env (objs3 0) r3 = None"
    unfolding o3 r3 by (simp add: example_collaborators_def)
  have d3: "map2 (\<lambda>y x. y - x) (labels r3) (labels (objs3 0)) = [2000000, 0]"
    unfolding o3 r3 by simp
  have n3: "[1::nat] \<noteq> []" by simp
  from delta_marker_resolution [OF h3, of ?env 0] m3 objs3_def r3_def c3 n3 e3
  have "\<exists>ev id2 self'. markerUpdated ?env 0 example_app2
          = (ev @ [DeltaSetMarkers (LiveMarker 0) id2, DeltaResetLabels, DeltaUpdateLabels],
             Inr self')
         \<and> delta_labels (delta_marker self') = map2 (\<lambda>y x. y - x) (labels r3) (labels (objs3 0))"
    by blast
  then have w3: "\<exists>ev id2 self'. markerUpdated ?env 0 example_app2
          = (ev @ [DeltaSetMarkers (LiveMarker 0) id2, DeltaResetLabels, DeltaUpdateLabels],
             Inr self')
         \<and> delta_labels (delta_marker self') = [2000000, 0]"
    unfolding d3 .
  \<comment> \<open>one marker, reference mode on, reference data\<close>
  have h4: "\<not> delta_marker_layout_hidden example_with_reference"
    and c4: "marker_ref example_with_reference"
      "Touchstone_bool (ref_data example_with_reference)"
    and m4: "markers example_with_reference = 0 # []"
    by (simp_all add: example_with_reference_def example_app_def Touchstone_bool_def truthy_def
          example_reference_def)
  define objs4 where "objs4 = (marker_objects example_with_reference)
      (0 := update_marker ?env (marker_objects example_with_reference 0)
              (data example_with_reference))"
  define r4 where "r4 = (if marker_ref example_with_reference
      then reference_marker ?env (objs4 0) (ref_data example_with_reference)
      else objs4 (hd []))"
  have o4: "objs4 0 = ?m"
    unfolding objs4_def by (simp add: example_with_reference_def example_app_def upd)
  have r4: "r4 = \<lparr>name = ''Reference'', location = 1, labels = [2000000, 1.3]\<rparr>"
    unfolding r4_def o4
    by (simp add: example_with_reference_def example_app_def reference_marker_def
          resetLabels_def example_collaborators_def example_reference_def)
  have e4: "delta_IndexError ?env (objs4 0) r4 = None"
    unfolding o4 r4 by (simp add: example_collaborators_def)
  have d4: "map2 (\<lambda>y x. y - x) (labels r4) (labels (objs4 0)) = [0, 0.25]"
    unfolding o4 r4 by simp
  from delta_marker_resolution [OF h4, of ?env 0] m4 objs4_def r4_def c4 e4
  have "\<exists>ev id2 self'. markerUpdated ?env 0 example_with_reference
          = (ev @ [DeltaSetMarkers (LiveMarker 0) id2, DeltaResetLabels, DeltaUpdateLabels],
             Inr self')
         \<and> delta_labels (delta_marker self') = map2 (\<lambda>y x. y - x) (labels r4) (labels (objs4 0))"
    by blast
  then have w4: "\<exists>ev id2 self'. markerUpdated ?env 0 example_with_reference
          = (ev @ [DeltaSetMarkers (LiveMarker 0) id2, DeltaResetLabels, DeltaUpdateLabels],
             Inr self')
         \<and> delta_labels (delta_marker self') = [0, 0.25]"
    unfolding d4 .
  from h0 m0 w0 h1 c1 w1 h2 c2 w2 h3 c3 m3 w3 h4 c4 w4 show ?thesis
    by simp
qed

end
